theory Spec2Isabelle
  imports Complex_Main
begin

section \<open>The snowfall composable \<open>useSnowfall\<close>\<close>

text \<open>
  The repository is one JavaScript function, \<open>useSnowfall(options)\<close>, whose closure holds
  the state of one snowfall effect and returns \<open>startSnowflakes\<close> and \<open>stopSnowflakes\<close>.
  The embedding below follows that function declaration by declaration. The closure's
  variables and the parts of the browser the code writes to (the tree position of the
  nodes it touches, the inline \<open>position\<close> style, the attribute
  \<open>data-vue-snowfall-position\<close>, the interval table, the console) form one record that
  every operation takes and returns. What the code only reads from the browser
  (\<open>document.querySelector\<close>, \<open>getComputedStyle\<close>, layout measurements) is a record of
  observations passed to the operation, and the results of \<open>Math.random()\<close> are passed
  likewise, so that each theorem holds for whatever the browser answers.

  JavaScript numbers are modelled as real numbers, and the results of \<open>Math.round\<close> and
  \<open>Math.floor\<close> as integers. The code computes in IEEE doubles: the model has no
  \<open>NaN\<close> and no infinity, and its sums and products are exact where those of the code
  are rounded. The comparison of the set size with \<open>maxFlakes\<close> is exact in both, and
  the statements about drift use values that doubles compute exactly (0 and the bounds
  200, 100 and 50). The statements about the size guard say what the guard does when it
  fires; which draws make it fire is decided by the rounded arithmetic of the code.
\<close>

subsection \<open>Options\<close>

type_synonym node = nat

text \<open>\<open>document.body\<close> and \<open>document.head\<close>, both taken to exist.\<close>

definition document_body :: node where
  "document_body = 0"

definition document_head :: node where
  "document_head = 1"

text \<open>
  The option \<open>container\<close> as \<open>getContainer\<close> tells its values apart: a string, an
  \<open>HTMLElement\<close>, or anything else. An absent option is \<open>ElementRef document_body\<close>,
  the default of the destructuring.
\<close>

datatype container_option = Selector string | ElementRef node | OtherValue

record config =
  container :: container_option
  interval :: real
  minSpeed :: real
  maxSpeed :: real
  minSize :: real
  maxSize :: real
  color :: string
  zIndex :: int
  maxFlakes :: "real option"
  chaos :: real

definition default_config :: config where
  "default_config =
     \<lparr>container = ElementRef document_body, interval = 500, minSpeed = 20, maxSpeed = 30,
      minSize = 10, maxSize = 30, color = ''#fff'', zIndex = 999, maxFlakes = None,
      chaos = 50\<rparr>"

text \<open>\<open>const chaosMultiplier = Math.max(0, Math.min(100, chaos)) / 50\<close>\<close>

definition chaosMultiplier :: "config \<Rightarrow> real" where
  "chaosMultiplier cfg = max 0 (min 100 (chaos cfg)) / 50"

subsection \<open>State\<close>

text \<open>
  What the code writes into an element it creates. \<open>fill_color\<close> is the option
  \<open>color\<close> as given; the code splices it into the markup of the flake as it is.
\<close>

record flake_style =
  left_percent :: int
  width_px :: int
  height_px :: int
  snow_x :: real
  snow_x_end :: real
  animation_seconds :: real
  fill_color :: string

datatype element = StyleElement int | FlakeElement flake_style

datatype callback = SpawnCallback | SweepCallback

record timer =
  handle :: nat
  fires :: callback
  delay :: real

text \<open>
  The first five fields are the closure's variables (\<open>animationStyleElement\<close> is declared
  and never used). \<open>activeFlakes\<close> is a JavaScript \<open>Set\<close>: a list in insertion order,
  \<open>add\<close> skipping a member, \<open>size\<close> its length. The next fields are the document:
  \<open>nextNode\<close> is the identity the next \<open>document.createElement\<close> hands out,
  \<open>created\<close> what this code wrote into the elements it created, \<open>listeners\<close> the
  flakes whose one-shot \<open>animationend\<close> listener has not fired. \<open>intervals\<close> holds the
  intervals this code registered and has not cleared, \<open>lastHandle\<close> the last handle the
  host issued. \<open>queried\<close> and \<open>warned\<close> record the calls of
  \<open>document.querySelector\<close> and \<open>console.warn\<close>.
\<close>

record state =
  flakeIntervalId :: "nat option"
  cleanupIntervalId :: "nat option"
  styleElement :: "node option"
  containerElement :: "node option"
  activeFlakes :: "node list"
  parentNode :: "node \<Rightarrow> node option"
  stylePosition :: "node \<Rightarrow> string"
  positionAttribute :: "node \<Rightarrow> string option"
  created :: "node \<Rightarrow> element option"
  nextNode :: node
  listeners :: "node list"
  intervals :: "timer list"
  lastHandle :: nat
  queried :: "string list"
  warned :: "string list"

text \<open>
  The state when \<open>useSnowfall\<close> returns, on a page \<open>pg\<close>: the closure's variables are
  \<open>null\<close> and the set is empty; nothing has been created, registered or logged.
\<close>

definition initial :: "state \<Rightarrow> state" where
  "initial pg =
     pg\<lparr>flakeIntervalId := None, cleanupIntervalId := None, styleElement := None,
        containerElement := None, activeFlakes := [], created := (\<lambda>n. None),
        listeners := [], intervals := [], queried := [], warned := []\<rparr>"

subsection \<open>What the browser answers\<close>

datatype query_result = Matched node | NoMatch | InvalidSelector

record env =
  querySelector :: "string \<Rightarrow> query_result"
  computedPosition :: "node \<Rightarrow> string"
  rectTop :: "node \<Rightarrow> real"
  innerHeight :: real
  offsetHeight :: "node \<Rightarrow> real"

text \<open>The results of the five \<open>Math.random()\<close> calls of one \<open>createSnowflake\<close>, in order.\<close>

record draws =
  uTime :: real
  uPos :: real
  uSize :: real
  uX :: real
  uXEnd :: real

text \<open>\<open>Math.random()\<close> returns a number in \<open>[0, 1)\<close>.\<close>

definition unit_draw :: "real \<Rightarrow> bool" where
  "unit_draw u = (0 \<le> u \<and> u < 1)"

definition unit_draws :: "draws \<Rightarrow> bool" where
  "unit_draws d =
     (unit_draw (uTime d) \<and> unit_draw (uPos d) \<and> unit_draw (uSize d) \<and> unit_draw (uX d)
      \<and> unit_draw (uXEnd d))"

datatype error = SyntaxError string

subsection \<open>Host operations\<close>

text \<open>
  \<open>if (flakeIntervalId)\<close>: \<open>null\<close> and \<open>0\<close> are falsy. The host issues handles greater
  than zero (\<open>setInterval\<close> below).
\<close>

fun truthy :: "nat option \<Rightarrow> bool" where
  "truthy None = False"
| "truthy (Some h) = (h \<noteq> 0)"

definition setInterval :: "callback \<Rightarrow> real \<Rightarrow> state \<Rightarrow> nat \<times> state" where
  "setInterval cb ms s =
     (let h = Suc (lastHandle s)
      in (h, s\<lparr>intervals := intervals s @ [\<lparr>handle = h, fires = cb, delay = ms\<rparr>],
               lastHandle := h\<rparr>))"

definition clearInterval :: "nat \<Rightarrow> state \<Rightarrow> state" where
  "clearInterval h s = s\<lparr>intervals := filter (\<lambda>t. handle t \<noteq> h) (intervals s)\<rparr>"

definition createElement :: "element \<Rightarrow> state \<Rightarrow> node \<times> state" where
  "createElement el s =
     (nextNode s,
      s\<lparr>created := (created s)(nextNode s \<mapsto> el), nextNode := Suc (nextNode s)\<rparr>)"

definition appendChild :: "node \<Rightarrow> node \<Rightarrow> state \<Rightarrow> state" where
  "appendChild p c s = s\<lparr>parentNode := (parentNode s)(c \<mapsto> p)\<rparr>"

text \<open>\<open>node.remove()\<close>\<close>

definition detach :: "node \<Rightarrow> state \<Rightarrow> state" where
  "detach c s = s\<lparr>parentNode := (parentNode s)(c := None)\<rparr>"

subsection \<open>The functions of the closure\<close>

definition not_found_warning :: "string \<Rightarrow> string" where
  "not_found_warning sel =
     ''Container selector '' @ [CHR 0x22] @ sel @ [CHR 0x22]
       @ '' not found, using document.body''"

text \<open>
  \<open>getContainer\<close>. An invalid selector makes \<open>document.querySelector\<close> throw: the
  assignment does not happen and the exception leaves the function.
\<close>

definition getContainer :: "config \<Rightarrow> env \<Rightarrow> state \<Rightarrow> (error + node) \<times> state" where
  "getContainer cfg e s =
     (case containerElement s of
        Some c \<Rightarrow> (Inr c, s)
      | None \<Rightarrow>
          (case container cfg of
             Selector sel \<Rightarrow>
               (let s1 = s\<lparr>queried := queried s @ [sel]\<rparr>
                in case querySelector e sel of
                     InvalidSelector \<Rightarrow> (Inl (SyntaxError sel), s1)
                   | Matched c \<Rightarrow> (Inr c, s1\<lparr>containerElement := Some c\<rparr>)
                   | NoMatch \<Rightarrow>
                       (Inr document_body,
                        s1\<lparr>warned := warned s1 @ [not_found_warning sel],
                           containerElement := Some document_body\<rparr>))
           | ElementRef c \<Rightarrow> (Inr c, s\<lparr>containerElement := Some c\<rparr>)
           | OtherValue \<Rightarrow> (Inr document_body, s\<lparr>containerElement := Some document_body\<rparr>)))"

definition addStyles :: "config \<Rightarrow> state \<Rightarrow> state" where
  "addStyles cfg s =
     (case styleElement s of
        Some _ \<Rightarrow> s
      | None \<Rightarrow>
          (case createElement (StyleElement (zIndex cfg)) s of
             (el, s1) \<Rightarrow> appendChild document_head el (s1\<lparr>styleElement := Some el\<rparr>)))"

definition removeStyles :: "state \<Rightarrow> state" where
  "removeStyles s =
     (case styleElement s of
        Some el \<Rightarrow> (detach el s)\<lparr>styleElement := None\<rparr>
      | None \<Rightarrow> s)"

text \<open>
  \<open>random(min, max) = Math.random() * (max - min) + min\<close>, with the result \<open>u\<close> of
  \<open>Math.random()\<close> as first argument, and
  \<open>randomInt(min, max) = Math.floor(random(min, max + 1))\<close>.
\<close>

definition random :: "real \<Rightarrow> real \<Rightarrow> real \<Rightarrow> real" where
  "random u mn mx = u * (mx - mn) + mn"

definition randomInt :: "real \<Rightarrow> real \<Rightarrow> real \<Rightarrow> int" where
  "randomInt u mn mx = \<lfloor>random u mn (mx + 1)\<rfloor>"

text \<open>\<open>activeFlakes.add\<close> and \<open>activeFlakes.delete\<close>\<close>

definition set_add :: "node \<Rightarrow> node list \<Rightarrow> node list" where
  "set_add x xs = (if x \<in> set xs then xs else xs @ [x])"

definition set_delete :: "node \<Rightarrow> node list \<Rightarrow> node list" where
  "set_delete x xs = removeAll x xs"

text \<open>\<open>removeSnowflake\<close>; the flake passed is always an object, so \<open>flake &&\<close> holds.\<close>

definition removeSnowflake :: "node \<Rightarrow> state \<Rightarrow> state" where
  "removeSnowflake flake s =
     (if parentNode s flake \<noteq> None
      then (detach flake s)\<lparr>activeFlakes := set_delete flake (activeFlakes s)\<rparr>
      else s)"

text \<open>
  The locals \<open>maxDeviation\<close>, \<open>xDeviation\<close> and \<open>xDeviationEnd\<close> of
  \<open>createSnowflake\<close>, as functions of the options and of the result \<open>u\<close> of
  \<open>Math.random()\<close>.
\<close>

definition maxDeviation :: "config \<Rightarrow> real" where
  "maxDeviation cfg = 100 * chaosMultiplier cfg"

definition xDeviation :: "config \<Rightarrow> real \<Rightarrow> real" where
  "xDeviation cfg u = random u (- maxDeviation cfg) (maxDeviation cfg)"

definition xDeviationEnd :: "config \<Rightarrow> real \<Rightarrow> real" where
  "xDeviationEnd cfg u = random u (- maxDeviation cfg * 0.5) (maxDeviation cfg * 0.5)"

text \<open>
  \<open>createSnowflake\<close>: \<open>Inr None\<close> is the return value \<open>null\<close>, \<open>Inr (Some n)\<close> the
  created element. \<open>Math.round\<close> rounds halves up, as \<^const>\<open>round\<close> does.
\<close>

definition createSnowflake ::
  "config \<Rightarrow> env \<Rightarrow> draws \<Rightarrow> state \<Rightarrow> (error + node option) \<times> state" where
  "createSnowflake cfg e d s =
     (if (case maxFlakes cfg of None \<Rightarrow> False
          | Some m \<Rightarrow> real (length (activeFlakes s)) \<ge> m)
      then (Inr None, s)
      else
        (case getContainer cfg e s of
           (Inl err, s1) \<Rightarrow> (Inl err, s1)
         | (Inr containerEl, s1) \<Rightarrow>
             (let fallingTime = random (uTime d) (minSpeed cfg) (maxSpeed cfg);
                  flakePos = randomInt (uPos d) 1 99;
                  flakeSize = round (random (uSize d) (minSize cfg) (maxSize cfg))
              in if flakeSize \<le> 0 then (Inr None, s1)
                 else
                   (case createElement
                      (FlakeElement
                        \<lparr>left_percent = flakePos, width_px = flakeSize,
                         height_px = flakeSize, snow_x = xDeviation cfg (uX d),
                         snow_x_end = xDeviationEnd cfg (uXEnd d),
                         animation_seconds = fallingTime, fill_color = color cfg\<rparr>) s1 of
                      (snowflake, s2) \<Rightarrow>
                        (let s3 = s2\<lparr>listeners := listeners s2 @ [snowflake]\<rparr>;
                             s4 = appendChild containerEl snowflake s3
                         in (Inr (Some snowflake),
                             s4\<lparr>activeFlakes := set_add snowflake (activeFlakes s4)\<rparr>))))))"

text \<open>
  \<open>cleanupSnowflakes\<close>: the flakes to remove are collected first, then removed in
  order.
\<close>

definition cleanupSnowflakes :: "config \<Rightarrow> env \<Rightarrow> state \<Rightarrow> (error + unit) \<times> state" where
  "cleanupSnowflakes cfg e s =
     (if length (activeFlakes s) = 0 then (Inr (), s)
      else
        (case getContainer cfg e s of
           (Inl err, s1) \<Rightarrow> (Inl err, s1)
         | (Inr containerEl, s1) \<Rightarrow>
             (let containerHeight =
                    (if containerEl = document_body then innerHeight e
                     else offsetHeight e containerEl);
                  flakesToRemove =
                    filter (\<lambda>flake. rectTop e flake > containerHeight + 50) (activeFlakes s1)
              in (Inr (), fold removeSnowflake flakesToRemove s1))))"

text \<open>
  \<open>removeAllSnowflakes\<close>: \<open>forEach\<close> visits every member once, also when the callback
  deletes the member it is visiting.
\<close>

definition removeAllSnowflakes :: "state \<Rightarrow> state" where
  "removeAllSnowflakes s = (fold removeSnowflake (activeFlakes s) s)\<lparr>activeFlakes := []\<rparr>"

text \<open>
  \<open>stopSnowflakes\<close>. Inside \<open>if (flakeIntervalId)\<close> the handle is not \<open>null\<close>, so
  \<open>the\<close> reads it. \<open>getAttribute\<close> returns \<open>null\<close> for an absent attribute.
\<close>

definition stopSnowflakes :: "state \<Rightarrow> state" where
  "stopSnowflakes s =
     (let s1 = (if truthy (flakeIntervalId s)
                then (clearInterval (the (flakeIntervalId s)) s)\<lparr>flakeIntervalId := None\<rparr>
                else s);
          s2 = (if truthy (cleanupIntervalId s1)
                then (clearInterval (the (cleanupIntervalId s1)) s1)
                       \<lparr>cleanupIntervalId := None\<rparr>
                else s1);
          s3 = removeAllSnowflakes s2;
          s4 = removeStyles s3
      in case containerElement s4 of
           None \<Rightarrow> s4
         | Some c \<Rightarrow>
             (if c \<noteq> document_body
              then (case positionAttribute s4 c of
                      None \<Rightarrow> s4
                    | Some originalPosition \<Rightarrow>
                        s4\<lparr>stylePosition := (stylePosition s4)
                              (c := (if originalPosition = ''static'' then ''''
                                     else originalPosition)),
                           positionAttribute := (positionAttribute s4)(c := None)\<rparr>)
              else s4))"

text \<open>
  \<open>startSnowflakes\<close>. \<open>originalPosition || 'static'\<close> is \<open>'static'\<close> for the empty
  string, the only falsy string.
\<close>

definition startSnowflakes ::
  "config \<Rightarrow> env \<Rightarrow> draws \<Rightarrow> state \<Rightarrow> (error + unit) \<times> state" where
  "startSnowflakes cfg e d s =
     (let s0 = (if truthy (flakeIntervalId s) then stopSnowflakes s else s);
          s1 = removeAllSnowflakes s0;
          s2 = addStyles cfg s1
      in case getContainer cfg e s2 of
           (Inl err, s3) \<Rightarrow> (Inl err, s3)
         | (Inr containerEl, s3) \<Rightarrow>
             (let s4 =
                    (if containerEl \<noteq> document_body
                        \<and> computedPosition e containerEl = ''static''
                     then (let originalPosition = stylePosition s3 containerEl
                           in s3\<lparr>stylePosition :=
                                   (stylePosition s3)(containerEl := ''relative''),
                                 positionAttribute :=
                                   (positionAttribute s3)
                                     (containerEl \<mapsto>
                                        (if originalPosition = '''' then ''static''
                                         else originalPosition))\<rparr>)
                     else s3)
              in case createSnowflake cfg e d s4 of
                   (Inl err, s5) \<Rightarrow> (Inl err, s5)
                 | (Inr _, s5) \<Rightarrow>
                     (case setInterval SpawnCallback (interval cfg) s5 of
                        (h1, s6) \<Rightarrow>
                          (case setInterval SweepCallback 2000
                                  (s6\<lparr>flakeIntervalId := Some h1\<rparr>) of
                             (h2, s7) \<Rightarrow> (Inr (), s7\<lparr>cleanupIntervalId := Some h2\<rparr>)))))"

subsection \<open>Events\<close>

text \<open>
  What can happen to one instance: the two public calls, the two interval callbacks (the
  host calls a callback only while its interval is registered), the one-shot
  \<open>animationend\<close> listener of a flake (removed before it runs), and some other code
  taking a node out of the document. An exception thrown inside a call leaves the state as
  it was when it was thrown.
\<close>

datatype event =
    Start env draws
  | Stop
  | SpawnTick env draws
  | SweepTick env
  | AnimationEnd node
  | Detached node

definition registered :: "callback \<Rightarrow> state \<Rightarrow> bool" where
  "registered cb s = (cb \<in> set (map fires (intervals s)))"

fun step :: "config \<Rightarrow> event \<Rightarrow> state \<Rightarrow> state" where
  "step cfg (Start e d) s = snd (startSnowflakes cfg e d s)"
| "step cfg Stop s = stopSnowflakes s"
| "step cfg (SpawnTick e d) s =
     (if registered SpawnCallback s then snd (createSnowflake cfg e d s) else s)"
| "step cfg (SweepTick e) s =
     (if registered SweepCallback s then snd (cleanupSnowflakes cfg e s) else s)"
| "step cfg (AnimationEnd n) s =
     (if n \<in> set (listeners s)
      then removeSnowflake n (s\<lparr>listeners := removeAll n (listeners s)\<rparr>)
      else s)"
| "step cfg (Detached n) s = detach n s"

definition run :: "config \<Rightarrow> event list \<Rightarrow> state \<Rightarrow> state" where
  "run cfg evs s = fold (step cfg) evs s"

subsection \<open>Invariants of the reachable states\<close>

text \<open>A style element this code created and that is attached to \<open>document.head\<close>.\<close>

definition injected :: "state \<Rightarrow> node \<Rightarrow> bool" where
  "injected s n =
     ((case created s n of Some (StyleElement _) \<Rightarrow> True | _ \<Rightarrow> False)
      \<and> parentNode s n = Some document_head)"

definition spawn_timer :: "config \<Rightarrow> nat \<Rightarrow> timer" where
  "spawn_timer cfg h = \<lparr>handle = h, fires = SpawnCallback, delay = interval cfg\<rparr>"

definition sweep_timer :: "nat \<Rightarrow> timer" where
  "sweep_timer h = \<lparr>handle = h, fires = SweepCallback, delay = 2000\<rparr>"

text \<open>
  Either nothing runs, or exactly the two intervals of the last start are registered, under
  the two stored handles, and the container has been resolved.
\<close>

definition timers_ok :: "config \<Rightarrow> state \<Rightarrow> bool" where
  "timers_ok cfg s =
     ((flakeIntervalId s = None \<and> cleanupIntervalId s = None \<and> intervals s = [])
      \<or> (\<exists>h1 h2. h1 \<noteq> 0 \<and> h2 \<noteq> 0 \<and> h1 \<noteq> h2
            \<and> flakeIntervalId s = Some h1 \<and> cleanupIntervalId s = Some h2
            \<and> intervals s = [spawn_timer cfg h1, sweep_timer h2]
            \<and> containerElement s \<noteq> None))"

text \<open>
  No style element of the instance is in \<open>document.head\<close> except the one it holds; the
  tracked flakes are nodes that \<open>document.createElement\<close> has handed out.
\<close>

definition style_ok :: "state \<Rightarrow> bool" where
  "style_ok s = (\<forall>n. injected s n \<longrightarrow> styleElement s = Some n)"

definition fresh_ok :: "state \<Rightarrow> bool" where
  "fresh_ok s = (\<forall>f \<in> set (activeFlakes s). f < nextNode s)"

text \<open>
  The invariant of the reachable states: the intervals are as above, the only injected
  style element is the one \<open>styleElement\<close> holds, and every tracked flake was handed out
  by \<open>document.createElement\<close> before.
\<close>

definition consistent :: "config \<Rightarrow> state \<Rightarrow> bool" where
  "consistent cfg s = (timers_ok cfg s \<and> style_ok s \<and> fresh_ok s)"

text \<open>Nothing runs: both handles are \<open>null\<close> and no interval is registered.\<close>

definition idle :: "state \<Rightarrow> bool" where
  "idle s = (flakeIntervalId s = None \<and> cleanupIntervalId s = None \<and> intervals s = [])"

text \<open>The tracked set holds at most \<open>m\<close> flakes.\<close>

definition bounded_by :: "int \<Rightarrow> state \<Rightarrow> bool" where
  "bounded_by m s = (int (length (activeFlakes s)) \<le> m)"

text \<open>The container is resolved to \<open>c\<close>, after the queries \<open>q\<close> and the warnings \<open>w\<close>.\<close>

definition resolved_as :: "node \<Rightarrow> string list \<Rightarrow> string list \<Rightarrow> state \<Rightarrow> bool" where
  "resolved_as c q w s = (containerElement s = Some c \<and> queried s = q \<and> warned s = w)"

text \<open>A tracked flake that is not in the document.\<close>

definition stranded :: "node \<Rightarrow> state \<Rightarrow> bool" where
  "stranded f s = (f \<in> set (activeFlakes s) \<and> parentNode s f = None \<and> f < nextNode s)"

text \<open>The events that call \<open>removeAllSnowflakes\<close>.\<close>

fun restarts :: "event \<Rightarrow> bool" where
  "restarts (Start e d) = True"
| "restarts Stop = True"
| "restarts ev = False"

text \<open>
  The style element \<open>el\<close> is the one the instance holds, and it is in
  \<open>document.head\<close>.
\<close>

definition style_at :: "node \<Rightarrow> state \<Rightarrow> bool" where
  "style_at el s = (styleElement s = Some el \<and> injected s el \<and> el < nextNode s)"

text \<open>
  The container is \<open>c\<close>, with inline position \<open>p\<close> and the attribute
  \<open>data-vue-snowfall-position\<close> as \<open>a\<close>.
\<close>

definition overridden :: "node \<Rightarrow> string \<Rightarrow> string option \<Rightarrow> state \<Rightarrow> bool" where
  "overridden c p a s =
     (containerElement s = Some c \<and> stylePosition s c = p \<and> positionAttribute s c = a)"

subsection \<open>The stages of \<open>createSnowflake\<close> and \<open>startSnowflakes\<close>\<close>

text \<open>
  The intermediate states of the two long functions, named so that a property can be
  followed through them: the first guard of \<open>createSnowflake\<close>, the element it builds
  and the state it leaves when it builds one; in \<open>startSnowflakes\<close> the state before the
  container is resolved, the position override, and the registration of the two intervals.
  The lemmas \<open>createSnowflake_outcomes\<close> and \<open>startSnowflakes_alt\<close> below relate them to
  the functions.
\<close>

definition max_reached :: "config \<Rightarrow> state \<Rightarrow> bool" where
  "max_reached cfg s =
     (case maxFlakes cfg of None \<Rightarrow> False | Some m \<Rightarrow> m \<le> real (length (activeFlakes s)))"

definition sampled :: "config \<Rightarrow> draws \<Rightarrow> flake_style" where
  "sampled cfg d =
     \<lparr>left_percent = randomInt (uPos d) 1 99,
      width_px = round (random (uSize d) (minSize cfg) (maxSize cfg)),
      height_px = round (random (uSize d) (minSize cfg) (maxSize cfg)),
      snow_x = xDeviation cfg (uX d), snow_x_end = xDeviationEnd cfg (uXEnd d),
      animation_seconds = random (uTime d) (minSpeed cfg) (maxSpeed cfg),
      fill_color = color cfg\<rparr>"

definition spawned :: "config \<Rightarrow> draws \<Rightarrow> node \<Rightarrow> state \<Rightarrow> state" where
  "spawned cfg d c s =
     s\<lparr>created := (created s)(nextNode s \<mapsto> FlakeElement (sampled cfg d)),
       nextNode := Suc (nextNode s), listeners := listeners s @ [nextNode s],
       parentNode := (parentNode s)(nextNode s \<mapsto> c),
       activeFlakes := set_add (nextNode s) (activeFlakes s)\<rparr>"

definition prepared :: "config \<Rightarrow> state \<Rightarrow> state" where
  "prepared cfg s =
     addStyles cfg
       (removeAllSnowflakes (if truthy (flakeIntervalId s) then stopSnowflakes s else s))"

definition positioned :: "env \<Rightarrow> node \<Rightarrow> state \<Rightarrow> state" where
  "positioned e c s =
     (if c \<noteq> document_body \<and> computedPosition e c = ''static''
      then s\<lparr>stylePosition := (stylePosition s)(c := ''relative''),
             positionAttribute :=
               (positionAttribute s)
                 (c \<mapsto> (if stylePosition s c = '''' then ''static'' else stylePosition s c))\<rparr>
      else s)"

definition scheduled :: "config \<Rightarrow> state \<Rightarrow> state" where
  "scheduled cfg s =
     s\<lparr>intervals := intervals s @ [spawn_timer cfg (Suc (lastHandle s)),
                                       sweep_timer (Suc (Suc (lastHandle s)))],
       lastHandle := Suc (Suc (lastHandle s)),
       flakeIntervalId := Some (Suc (lastHandle s)),
       cleanupIntervalId := Some (Suc (Suc (lastHandle s)))\<rparr>"

subsection \<open>The spec's words for the chaos scaling\<close>

text \<open>
  The spec describes the multiplier as the chaos level clamped into \<open>[0, 100]\<close> and
  divided by 50; \<open>clamp\<close> is that clamping, written from the spec, to be compared with
  \<open>Math.max(0, Math.min(100, chaos))\<close>. \<open>max_magnitude f m\<close> says that \<open>m\<close> is the
  largest absolute value of \<open>f\<close> over the results of \<open>Math.random()\<close>.
\<close>

definition clamp :: "real \<Rightarrow> real \<Rightarrow> real \<Rightarrow> real" where
  "clamp x lo hi = (if x < lo then lo else if hi < x then hi else x)"

definition max_magnitude :: "(real \<Rightarrow> real) \<Rightarrow> real \<Rightarrow> bool" where
  "max_magnitude f m =
     ((\<forall>u. unit_draw u \<longrightarrow> \<bar>f u\<bar> \<le> m) \<and> (\<exists>u. unit_draw u \<and> \<bar>f u\<bar> = m))"

text \<open>
  The first \<open>createSnowflake\<close> of a start, on the emptied set, is skipped: the cap is
  \<open>\<le> 0\<close> or the rounded size is.
\<close>

definition first_spawn_skipped :: "config \<Rightarrow> draws \<Rightarrow> bool" where
  "first_spawn_skipped cfg d =
     ((case maxFlakes cfg of None \<Rightarrow> False | Some m \<Rightarrow> m \<le> 0)
      \<or> round (random (uSize d) (minSize cfg) (maxSize cfg)) \<le> 0)"

subsection \<open>A concrete page\<close>

text \<open>
  A page with an element \<open>2\<close> besides head and body, nothing styled and nothing attached
  yet; a browser that finds no selector, computes \<open>position: static\<close> everywhere and
  reports a 600 pixel viewport; and one set of random draws.
\<close>

definition page0 :: state where
  "page0 =
     \<lparr>flakeIntervalId = None, cleanupIntervalId = None, styleElement = None,
      containerElement = None, activeFlakes = [], parentNode = (\<lambda>n. None),
      stylePosition = (\<lambda>n. ''''), positionAttribute = (\<lambda>n. None),
      created = (\<lambda>n. None), nextNode = 3, listeners = [], intervals = [], lastHandle = 0,
      queried = [], warned = []\<rparr>"

definition env0 :: env where
  "env0 =
     \<lparr>querySelector = (\<lambda>sel. NoMatch), computedPosition = (\<lambda>n. ''static''),
      rectTop = (\<lambda>n. 0), innerHeight = 600, offsetHeight = (\<lambda>n. 300)\<rparr>"

definition draws0 :: draws where
  "draws0 = \<lparr>uTime = 0, uPos = 1 / 2, uSize = 0, uX = 0, uXEnd = 0\<rparr>"

text \<open>
  The same page with \<open>style="position: static"\<close> on the element \<open>2\<close>, and the options
  that name this element as the container.
\<close>

definition static_page :: state where
  "static_page = page0\<lparr>stylePosition := (\<lambda>n. if n = 2 then ''static'' else '''')\<rparr>"

definition container_config :: config where
  "container_config = default_config\<lparr>container := ElementRef 2\<rparr>"

text \<open>Options with a cap of one flake, a cap of zero, flakes of size zero, and a selector.\<close>

definition capped_config :: config where
  "capped_config = default_config\<lparr>maxFlakes := Some 1\<rparr>"

definition zero_config :: config where
  "zero_config = default_config\<lparr>maxFlakes := Some 0\<rparr>"

definition tiny_config :: config where
  "tiny_config = default_config\<lparr>minSize := 0, maxSize := 0\<rparr>"

definition selector_config :: config where
  "selector_config = default_config\<lparr>container := Selector ''#snow''\<rparr>"

text \<open>Options with a cap of one and a half flakes, and with a negative cap.\<close>

definition fractional_config :: config where
  "fractional_config = default_config\<lparr>maxFlakes := Some (3 / 2)\<rparr>"

definition negative_config :: config where
  "negative_config = default_config\<lparr>maxFlakes := Some (- 1)\<rparr>"

section \<open>Lemmas\<close>

subsection \<open>Removal in closed form\<close>

text \<open>
  Removing a list of flakes one after the other detaches every listed flake and drops
  from the tracked set those that had a parent node.
\<close>

lemma removeSnowflake_detached: "parentNode s f = None \<Longrightarrow> removeSnowflake f s = s"
  by (simp add: removeSnowflake_def)

lemma getContainer_cached: "containerElement s = Some c \<Longrightarrow> getContainer cfg e s = (Inr c, s)"
  by (simp add: getContainer_def)

lemma fold_removeSnowflake:
  "fold removeSnowflake xs s =
     s\<lparr>parentNode := (\<lambda>n. if n \<in> set xs then None else parentNode s n),
       activeFlakes := filter (\<lambda>f. f \<notin> set xs \<or> parentNode s f = None) (activeFlakes s)\<rparr>"
proof (induction xs arbitrary: s)
  case Nil
  show ?case by simp
next
  case (Cons x xs)
  show ?case
  proof (cases "parentNode s x = None")
    case True
    then have step: "removeSnowflake x s = s"
      by (simp add: removeSnowflake_def)
    show ?thesis
      using True
      by (intro state.equality) (auto simp: step Cons.IH fun_eq_iff intro: filter_cong)
  next
    case False
    then have step: "removeSnowflake x s =
        s\<lparr>parentNode := (parentNode s)(x := None), activeFlakes := removeAll x (activeFlakes s)\<rparr>"
      by (simp add: removeSnowflake_def detach_def set_delete_def)
    show ?thesis
      using False
      by (intro state.equality)
        (auto simp: step Cons.IH fun_eq_iff removeAll_filter_not_eq intro: filter_cong)
  qed
qed

lemma removeAllSnowflakes_eq:
  "removeAllSnowflakes s =
     s\<lparr>parentNode := (\<lambda>n. if n \<in> set (activeFlakes s) then None else parentNode s n),
       activeFlakes := []\<rparr>"
  by (simp add: removeAllSnowflakes_def fold_removeSnowflake)

lemmas state_ops = clearInterval_def detach_def appendChild_def createElement_def
  setInterval_def set_add_def set_delete_def

subsection \<open>What \<open>stopSnowflakes\<close> leaves\<close>

lemma stop_activeFlakes: "activeFlakes (stopSnowflakes s) = []"
  by (simp add: stopSnowflakes_def Let_def removeAllSnowflakes_eq removeStyles_def state_ops
      split: option.splits)

lemma stop_styleElement: "styleElement (stopSnowflakes s) = None"
  by (simp add: stopSnowflakes_def Let_def removeAllSnowflakes_eq removeStyles_def state_ops
      split: option.splits)

lemma stop_containerElement: "containerElement (stopSnowflakes s) = containerElement s"
  by (simp add: stopSnowflakes_def Let_def removeAllSnowflakes_eq removeStyles_def state_ops
      split: option.splits)

lemma stop_flakeIntervalId:
  "flakeIntervalId (stopSnowflakes s) = (if truthy (flakeIntervalId s) then None else flakeIntervalId s)"
  by (simp add: stopSnowflakes_def Let_def removeAllSnowflakes_eq removeStyles_def state_ops
      split: option.splits)

lemma stop_cleanupIntervalId:
  "cleanupIntervalId (stopSnowflakes s) = (if truthy (cleanupIntervalId s) then None else cleanupIntervalId s)"
  by (simp add: stopSnowflakes_def Let_def removeAllSnowflakes_eq removeStyles_def state_ops
      split: option.splits)

lemma stop_fixed:
  assumes "\<not> truthy (flakeIntervalId s)" "\<not> truthy (cleanupIntervalId s)"
    "activeFlakes s = []" "styleElement s = None"
    "\<And>c. containerElement s = Some c \<Longrightarrow> c \<noteq> document_body \<Longrightarrow> positionAttribute s c = None"
  shows "stopSnowflakes s = s"
  using assms
  by (simp add: stopSnowflakes_def Let_def removeAllSnowflakes_eq removeStyles_def
      split: option.splits)

lemma stop_positionAttribute:
  "containerElement s = Some c \<Longrightarrow> c \<noteq> document_body \<Longrightarrow> positionAttribute (stopSnowflakes s) c = None"
  by (simp add: stopSnowflakes_def Let_def removeAllSnowflakes_eq removeStyles_def state_ops
      split: option.splits)

lemma stop_idem: "stopSnowflakes (stopSnowflakes s) = stopSnowflakes s"
  by (rule stop_fixed)
    (auto simp: stop_activeFlakes stop_styleElement stop_containerElement stop_flakeIntervalId
      stop_cleanupIntervalId stop_positionAttribute)

lemma stop_funpow: "(stopSnowflakes ^^ Suc k) s = stopSnowflakes s"
  by (induction k) (simp_all add: stop_idem)

subsection \<open>The outcomes of \<open>getContainer\<close>, \<open>createSnowflake\<close> and \<open>startSnowflakes\<close>\<close>

text \<open>
  \<open>getContainer\<close> writes the cache and the two logs only. \<open>createSnowflake\<close> ends in
  one of four ways and \<open>startSnowflakes\<close> in one of three; a property kept by
  \<open>getContainer\<close> and by the creation of a flake is kept by \<open>createSnowflake\<close>.
\<close>

lemma getContainer_frame:
  "\<exists>ce q w. snd (getContainer cfg e s) = s\<lparr>containerElement := ce, queried := q, warned := w\<rparr>
     \<and> (containerElement s \<noteq> None \<longrightarrow> ce \<noteq> None)
     \<and> (\<forall>c. fst (getContainer cfg e s) = Inr c \<longrightarrow> ce = Some c)"
proof (cases "containerElement s")
  case (Some c)
  then have "getContainer cfg e s = (Inr c, s)" by (simp add: getContainer_def)
  then show ?thesis using Some
    by (intro exI[of _ "Some c"] exI[of _ "queried s"] exI[of _ "warned s"]) simp
next
  case None
  show ?thesis
  proof (cases "container cfg")
    case (Selector sel)
    show ?thesis
    proof (cases "querySelector e sel")
      case (Matched c)
      show ?thesis using None Selector Matched
        by (intro exI[of _ "Some c"] exI[of _ "queried s @ [sel]"] exI[of _ "warned s"])
          (simp add: getContainer_def Let_def)
    next
      case NoMatch
      show ?thesis using None Selector NoMatch
        by (intro exI[of _ "Some document_body"] exI[of _ "queried s @ [sel]"]
            exI[of _ "warned s @ [not_found_warning sel]"])
          (simp add: getContainer_def Let_def)
    next
      case InvalidSelector
      show ?thesis using None Selector InvalidSelector
        by (intro exI[of _ "None"] exI[of _ "queried s @ [sel]"] exI[of _ "warned s"])
          (simp add: getContainer_def Let_def)
    qed
  next
    case (ElementRef c)
    show ?thesis using None ElementRef
      by (intro exI[of _ "Some c"] exI[of _ "queried s"] exI[of _ "warned s"])
        (simp add: getContainer_def)
  next
    case OtherValue
    show ?thesis using None OtherValue
      by (intro exI[of _ "Some document_body"] exI[of _ "queried s"] exI[of _ "warned s"])
        (simp add: getContainer_def)
  qed
qed

lemma createSnowflake_outcomes:
  obtains
    (guard) "max_reached cfg s" "createSnowflake cfg e d s = (Inr None, s)"
  | (throws) err where "\<not> max_reached cfg s" "fst (getContainer cfg e s) = Inl err"
      "createSnowflake cfg e d s = (Inl err, snd (getContainer cfg e s))"
  | (small) c where "\<not> max_reached cfg s" "fst (getContainer cfg e s) = Inr c"
      "round (random (uSize d) (minSize cfg) (maxSize cfg)) \<le> 0"
      "createSnowflake cfg e d s = (Inr None, snd (getContainer cfg e s))"
  | (spawns) c where "\<not> max_reached cfg s" "fst (getContainer cfg e s) = Inr c"
      "0 < round (random (uSize d) (minSize cfg) (maxSize cfg))"
      "createSnowflake cfg e d s =
         (Inr (Some (nextNode (snd (getContainer cfg e s)))),
          spawned cfg d c (snd (getContainer cfg e s)))"
proof (cases "max_reached cfg s")
  case True
  then have "createSnowflake cfg e d s = (Inr None, s)"
    by (simp add: createSnowflake_def max_reached_def)
  with True show ?thesis by (rule guard)
next
  case False
  obtain r s1 where g: "getContainer cfg e s = (r, s1)" by fastforce
  show ?thesis
  proof (cases r)
    case (Inl err)
    with False g have "createSnowflake cfg e d s = (Inl err, snd (getContainer cfg e s))"
      by (simp add: createSnowflake_def max_reached_def)
    with False Inl g show ?thesis by (intro throws[of err]) simp_all
  next
    case (Inr c)
    show ?thesis
    proof (cases "round (random (uSize d) (minSize cfg) (maxSize cfg)) \<le> 0")
      case True
      with False g Inr have "createSnowflake cfg e d s = (Inr None, snd (getContainer cfg e s))"
        by (simp add: createSnowflake_def max_reached_def)
      with False Inr g True show ?thesis by (intro small[of c]) simp_all
    next
      case big: False
      with False g Inr have "createSnowflake cfg e d s =
         (Inr (Some (nextNode s1)), spawned cfg d c s1)"
        by (simp add: createSnowflake_def max_reached_def Let_def createElement_def
            appendChild_def spawned_def sampled_def)
      with False Inr g big show ?thesis by (intro spawns[of c]) simp_all
    qed
  qed
qed

lemma schedule_eq:
  "(case setInterval SpawnCallback (interval cfg) s5 of
      (h1, s6) \<Rightarrow>
        (case setInterval SweepCallback 2000 (s6\<lparr>flakeIntervalId := Some h1\<rparr>) of
           (h2, s7) \<Rightarrow> (Inr (), s7\<lparr>cleanupIntervalId := Some h2\<rparr>)))
   = (Inr (), scheduled cfg s5)"
  by (simp add: scheduled_def setInterval_def spawn_timer_def sweep_timer_def Let_def)

lemma startSnowflakes_alt:
  "startSnowflakes cfg e d s =
     (case getContainer cfg e (prepared cfg s) of
        (Inl err, s3) \<Rightarrow> (Inl err, s3)
      | (Inr c, s3) \<Rightarrow>
          (case createSnowflake cfg e d (positioned e c s3) of
             (Inl err, s5) \<Rightarrow> (Inl err, s5)
           | (Inr _, s5) \<Rightarrow> (Inr (), scheduled cfg s5)))"
  unfolding startSnowflakes_def Let_def schedule_eq prepared_def positioned_def
  by (rule refl)

lemma startSnowflakes_outcomes:
  obtains
    (unresolved) err where "fst (getContainer cfg e (prepared cfg s)) = Inl err"
      "startSnowflakes cfg e d s = (Inl err, snd (getContainer cfg e (prepared cfg s)))"
  | (spawn_throws) c err where "fst (getContainer cfg e (prepared cfg s)) = Inr c"
      "fst (createSnowflake cfg e d (positioned e c (snd (getContainer cfg e (prepared cfg s)))))
         = Inl err"
      "startSnowflakes cfg e d s =
         (Inl err,
          snd (createSnowflake cfg e d (positioned e c (snd (getContainer cfg e (prepared cfg s))))))"
  | (started) c r where "fst (getContainer cfg e (prepared cfg s)) = Inr c"
      "fst (createSnowflake cfg e d (positioned e c (snd (getContainer cfg e (prepared cfg s)))))
         = Inr r"
      "startSnowflakes cfg e d s =
         (Inr (),
          scheduled cfg
            (snd (createSnowflake cfg e d
                   (positioned e c (snd (getContainer cfg e (prepared cfg s)))))))"
proof -
  obtain rc s3 where g: "getContainer cfg e (prepared cfg s) = (rc, s3)" by fastforce
  show ?thesis
  proof (cases rc)
    case (Inl err)
    with g have "startSnowflakes cfg e d s = (Inl err, s3)"
      by (simp add: startSnowflakes_alt)
    with g Inl show ?thesis by (intro unresolved[of err]) simp_all
  next
    case (Inr c)
    obtain rs s5 where cs: "createSnowflake cfg e d (positioned e c s3) = (rs, s5)" by fastforce
    show ?thesis
    proof (cases rs)
      case (Inl err)
      with g Inr cs have "startSnowflakes cfg e d s = (Inl err, s5)"
        by (simp add: startSnowflakes_alt)
      with g Inr cs Inl show ?thesis by (intro spawn_throws[of c err]) simp_all
    next
      case r: (Inr r)
      with g Inr cs have "startSnowflakes cfg e d s = (Inr (), scheduled cfg s5)"
        by (simp add: startSnowflakes_alt)
      with g Inr cs r show ?thesis by (intro started[of c r]) simp_all
    qed
  qed
qed

lemma getContainer_resolved:
  "fst (getContainer cfg e s) = Inr c \<Longrightarrow> containerElement (snd (getContainer cfg e s)) = Some c"
  using getContainer_frame[of cfg e s] by auto

lemma getContainer_keeps:
  "containerElement s \<noteq> None \<Longrightarrow> containerElement (snd (getContainer cfg e s)) \<noteq> None"
  using getContainer_frame[of cfg e s] by auto

lemma getContainer_fields:
  "flakeIntervalId (snd (getContainer cfg e s)) = flakeIntervalId s"
  "cleanupIntervalId (snd (getContainer cfg e s)) = cleanupIntervalId s"
  "styleElement (snd (getContainer cfg e s)) = styleElement s"
  "activeFlakes (snd (getContainer cfg e s)) = activeFlakes s"
  "parentNode (snd (getContainer cfg e s)) = parentNode s"
  "stylePosition (snd (getContainer cfg e s)) = stylePosition s"
  "positionAttribute (snd (getContainer cfg e s)) = positionAttribute s"
  "created (snd (getContainer cfg e s)) = created s"
  "nextNode (snd (getContainer cfg e s)) = nextNode s"
  "listeners (snd (getContainer cfg e s)) = listeners s"
  "intervals (snd (getContainer cfg e s)) = intervals s"
  "lastHandle (snd (getContainer cfg e s)) = lastHandle s"
  using getContainer_frame[of cfg e s] by auto

lemma spawned_fields:
  "flakeIntervalId (spawned cfg d c s) = flakeIntervalId s"
  "cleanupIntervalId (spawned cfg d c s) = cleanupIntervalId s"
  "styleElement (spawned cfg d c s) = styleElement s"
  "containerElement (spawned cfg d c s) = containerElement s"
  "stylePosition (spawned cfg d c s) = stylePosition s"
  "positionAttribute (spawned cfg d c s) = positionAttribute s"
  "intervals (spawned cfg d c s) = intervals s"
  "lastHandle (spawned cfg d c s) = lastHandle s"
  "queried (spawned cfg d c s) = queried s"
  "warned (spawned cfg d c s) = warned s"
  "nextNode (spawned cfg d c s) = Suc (nextNode s)"
  "activeFlakes (spawned cfg d c s) = set_add (nextNode s) (activeFlakes s)"
  "parentNode (spawned cfg d c s) = (parentNode s)(nextNode s \<mapsto> c)"
  "created (spawned cfg d c s) = (created s)(nextNode s \<mapsto> FlakeElement (sampled cfg d))"
  by (simp_all add: spawned_def)

lemma createSnowflake_keeps:
  assumes "P s"
    and "\<And>t. P t \<Longrightarrow> P (snd (getContainer cfg e t))"
    and "\<And>c t. P t \<Longrightarrow> \<not> max_reached cfg t \<Longrightarrow> P (spawned cfg d c t)"
  shows "P (snd (createSnowflake cfg e d s))"
proof (cases rule: createSnowflake_outcomes[of cfg s e d])
  case guard
  then show ?thesis using assms(1) by simp
next
  case (throws err)
  then show ?thesis using assms(1,2) by simp
next
  case (small c)
  then show ?thesis using assms(1,2) by simp
next
  case (spawns c)
  have "\<not> max_reached cfg (snd (getContainer cfg e s))"
    using spawns(1) by (simp add: max_reached_def getContainer_fields split: option.splits)
  then show ?thesis using spawns(4) assms by simp
qed

subsection \<open>Invariant: no stray style element\<close>

lemma style_ok_getContainer: "style_ok s \<Longrightarrow> style_ok (snd (getContainer cfg e s))"
  by (simp add: style_ok_def injected_def getContainer_fields)

lemma style_ok_spawned: "style_ok s \<Longrightarrow> style_ok (spawned cfg d c s)"
  by (auto simp: style_ok_def injected_def spawned_fields split: if_splits)

lemma style_ok_createSnowflake: "style_ok s \<Longrightarrow> style_ok (snd (createSnowflake cfg e d s))"
  by (rule createSnowflake_keeps) (auto intro: style_ok_getContainer style_ok_spawned)

lemma style_ok_fold: "style_ok s \<Longrightarrow> style_ok (fold removeSnowflake xs s)"
  by (auto simp: style_ok_def injected_def fold_removeSnowflake split: if_splits)

lemma style_ok_removeAll: "style_ok s \<Longrightarrow> style_ok (removeAllSnowflakes s)"
  by (auto simp: style_ok_def injected_def removeAllSnowflakes_eq split: if_splits)

lemma style_ok_removeSnowflake: "style_ok s \<Longrightarrow> style_ok (removeSnowflake n s)"
  using style_ok_fold[of s "[n]"] by simp

lemma style_ok_detach: "style_ok s \<Longrightarrow> style_ok (detach n s)"
  by (auto simp: style_ok_def injected_def detach_def split: if_splits)

lemma style_ok_addStyles: "style_ok s \<Longrightarrow> style_ok (addStyles cfg s)"
  by (auto simp: style_ok_def injected_def addStyles_def createElement_def appendChild_def
      split: if_splits option.splits)

lemma stop_parentNode:
  "parentNode (stopSnowflakes s) n =
     (if n \<in> set (activeFlakes s) \<or> styleElement s = Some n then None else parentNode s n)"
  by (simp add: stopSnowflakes_def Let_def removeAllSnowflakes_eq removeStyles_def state_ops
      split: option.splits)

lemma stop_created: "created (stopSnowflakes s) = created s"
  by (simp add: stopSnowflakes_def Let_def removeAllSnowflakes_eq removeStyles_def state_ops
      split: option.splits)

lemma none_injected_stop: "style_ok s \<Longrightarrow> \<not> injected (stopSnowflakes s) n"
  by (auto simp: style_ok_def injected_def stop_parentNode stop_created split: if_splits)

lemma style_ok_stop: "style_ok s \<Longrightarrow> style_ok (stopSnowflakes s)"
  using none_injected_stop[of s] by (simp add: style_ok_def)

lemma style_ok_prepared: "style_ok s \<Longrightarrow> style_ok (prepared cfg s)"
  by (simp add: prepared_def style_ok_addStyles style_ok_removeAll style_ok_stop)

lemma style_ok_positioned: "style_ok s \<Longrightarrow> style_ok (positioned e c s)"
  by (simp add: style_ok_def injected_def positioned_def)

lemma style_ok_scheduled: "style_ok s \<Longrightarrow> style_ok (scheduled cfg s)"
  by (simp add: style_ok_def injected_def scheduled_def)

lemma style_ok_start: "style_ok s \<Longrightarrow> style_ok (snd (startSnowflakes cfg e d s))"
  by (cases rule: startSnowflakes_outcomes[of cfg e s d])
    (simp_all add: style_ok_prepared style_ok_getContainer style_ok_positioned
      style_ok_createSnowflake style_ok_scheduled)

lemma style_ok_cleanup: "style_ok s \<Longrightarrow> style_ok (snd (cleanupSnowflakes cfg e s))"
proof -
  obtain r s1 where g: "getContainer cfg e s = (r, s1)" by fastforce
  assume "style_ok s"
  then have "style_ok s1" using style_ok_getContainer[of s cfg e] g by simp
  then show ?thesis using g \<open>style_ok s\<close>
    by (cases r) (simp_all add: cleanupSnowflakes_def Let_def style_ok_fold)
qed

lemma style_ok_step: "style_ok s \<Longrightarrow> style_ok (step cfg ev s)"
proof (cases ev)
  case (AnimationEnd n)
  assume "style_ok s"
  then have "style_ok (s\<lparr>listeners := removeAll n (listeners s)\<rparr>)"
    by (simp add: style_ok_def injected_def)
  then show ?thesis using AnimationEnd \<open>style_ok s\<close> by (simp add: style_ok_removeSnowflake)
qed (simp_all add: style_ok_start style_ok_stop style_ok_createSnowflake style_ok_cleanup
    style_ok_detach)

subsection \<open>Invariant: the registered intervals\<close>

lemma idle_stop: "timers_ok cfg s \<Longrightarrow> idle (stopSnowflakes s)"
  unfolding timers_ok_def idle_def
  by (auto simp: stopSnowflakes_def Let_def removeAllSnowflakes_eq removeStyles_def state_ops
      spawn_timer_def sweep_timer_def split: option.splits)

lemma removeSnowflake_eq:
  "removeSnowflake n s =
     s\<lparr>parentNode := (\<lambda>m. if m = n then None else parentNode s m),
       activeFlakes := filter (\<lambda>f. f \<noteq> n \<or> parentNode s f = None) (activeFlakes s)\<rparr>"
  using fold_removeSnowflake[of "[n]" s] by simp

lemma idle_removeAll: "idle s \<Longrightarrow> idle (removeAllSnowflakes s)"
  by (simp add: idle_def removeAllSnowflakes_eq)

lemma idle_addStyles: "idle s \<Longrightarrow> idle (addStyles cfg s)"
  by (simp add: idle_def addStyles_def createElement_def appendChild_def split: option.splits)

lemma idle_prepared: "timers_ok cfg s \<Longrightarrow> idle (prepared cfg s)"
proof -
  assume t: "timers_ok cfg s"
  have "idle (if truthy (flakeIntervalId s) then stopSnowflakes s else s)"
    using t idle_stop[OF t] by (auto simp: timers_ok_def idle_def)
  then show ?thesis
    unfolding prepared_def by (intro idle_addStyles idle_removeAll)
qed

lemma idle_getContainer: "idle s \<Longrightarrow> idle (snd (getContainer cfg e s))"
  by (simp add: idle_def getContainer_fields)

lemma idle_positioned: "idle s \<Longrightarrow> idle (positioned e c s)"
  by (simp add: idle_def positioned_def)

lemma idle_spawned: "idle s \<Longrightarrow> idle (spawned cfg d c s)"
  by (simp add: idle_def spawned_fields)

lemma idle_createSnowflake: "idle s \<Longrightarrow> idle (snd (createSnowflake cfg e d s))"
  by (rule createSnowflake_keeps[where P = idle]) (simp_all add: idle_getContainer idle_spawned)

lemma idle_timers_ok: "idle s \<Longrightarrow> timers_ok cfg s"
  by (simp add: idle_def timers_ok_def)

lemma resolved_createSnowflake:
  "containerElement s \<noteq> None \<Longrightarrow> containerElement (snd (createSnowflake cfg e d s)) \<noteq> None"
  by (rule createSnowflake_keeps[where P = "\<lambda>t. containerElement t \<noteq> None"])
    (simp_all add: getContainer_keeps spawned_fields)

lemma timers_ok_scheduled:
  "idle s \<Longrightarrow> containerElement s \<noteq> None \<Longrightarrow> timers_ok cfg (scheduled cfg s)"
  by (simp add: idle_def timers_ok_def scheduled_def)

lemma timers_ok_start: "timers_ok cfg s \<Longrightarrow> timers_ok cfg (snd (startSnowflakes cfg e d s))"
proof (cases rule: startSnowflakes_outcomes[of cfg e s d])
  case (unresolved err)
  assume "timers_ok cfg s"
  then show ?thesis using unresolved
    by (simp add: idle_timers_ok idle_getContainer idle_prepared)
next
  case (spawn_throws c err)
  assume "timers_ok cfg s"
  then show ?thesis using spawn_throws
    by (simp add: idle_timers_ok idle_getContainer idle_prepared idle_positioned
        idle_createSnowflake)
next
  case (started c r)
  assume t: "timers_ok cfg s"
  let ?s3 = "snd (getContainer cfg e (prepared cfg s))"
  have "containerElement (positioned e c ?s3) \<noteq> None"
    using getContainer_resolved[OF started(1)] by (simp add: positioned_def)
  then have "containerElement (snd (createSnowflake cfg e d (positioned e c ?s3))) \<noteq> None"
    by (rule resolved_createSnowflake)
  moreover have "idle (snd (createSnowflake cfg e d (positioned e c ?s3)))"
    using t by (simp add: idle_getContainer idle_prepared idle_positioned idle_createSnowflake)
  ultimately show ?thesis using started(3) by (simp add: timers_ok_scheduled)
qed

lemma timers_ok_frame:
  assumes "timers_ok cfg s" "flakeIntervalId t = flakeIntervalId s"
    "cleanupIntervalId t = cleanupIntervalId s" "intervals t = intervals s"
    "containerElement s \<noteq> None \<longrightarrow> containerElement t \<noteq> None"
  shows "timers_ok cfg t"
  using assms unfolding timers_ok_def by auto

lemma timers_ok_getContainer: "timers_ok cfg s \<Longrightarrow> timers_ok cfg (snd (getContainer cfg e s))"
  by (erule timers_ok_frame) (simp_all add: getContainer_fields getContainer_keeps)

lemma timers_ok_spawned: "timers_ok cfg s \<Longrightarrow> timers_ok cfg (spawned cfg d c s)"
  by (erule timers_ok_frame) (simp_all add: spawned_fields)

lemma timers_ok_createSnowflake:
  "timers_ok cfg s \<Longrightarrow> timers_ok cfg (snd (createSnowflake cfg e d s))"
  by (rule createSnowflake_keeps[where P = "timers_ok cfg"])
    (simp_all add: timers_ok_getContainer timers_ok_spawned)

lemma timers_ok_fold: "timers_ok cfg s \<Longrightarrow> timers_ok cfg (fold removeSnowflake xs s)"
  by (erule timers_ok_frame) (simp_all add: fold_removeSnowflake)

lemma timers_ok_cleanup:
  "timers_ok cfg s \<Longrightarrow> timers_ok cfg (snd (cleanupSnowflakes cfg e s))"
proof -
  obtain r s1 where g: "getContainer cfg e s = (r, s1)" by fastforce
  assume t: "timers_ok cfg s"
  then have "timers_ok cfg s1" using timers_ok_getContainer[of cfg s e] g by simp
  then show ?thesis using g t
    by (cases r) (simp_all add: cleanupSnowflakes_def Let_def timers_ok_fold)
qed

lemma timers_ok_step: "timers_ok cfg s \<Longrightarrow> timers_ok cfg (step cfg ev s)"
proof (cases ev)
  case (AnimationEnd n)
  assume t: "timers_ok cfg s"
  have "timers_ok cfg (removeSnowflake n (s\<lparr>listeners := removeAll n (listeners s)\<rparr>))"
    by (rule timers_ok_frame[OF t]) (simp_all add: removeSnowflake_eq)
  then show ?thesis using AnimationEnd t by simp
next
  case (Detached n)
  assume t: "timers_ok cfg s"
  have "timers_ok cfg (detach n s)"
    by (rule timers_ok_frame[OF t]) (simp_all add: detach_def)
  then show ?thesis using Detached by simp
next
  case Stop
  assume t: "timers_ok cfg s"
  then show ?thesis using Stop by (simp add: idle_timers_ok idle_stop)
qed (simp_all add: timers_ok_start timers_ok_createSnowflake timers_ok_cleanup)

subsection \<open>Invariant: tracked flakes were created before\<close>

lemma prepared_activeFlakes: "activeFlakes (prepared cfg s) = []"
  by (simp add: prepared_def removeAllSnowflakes_eq addStyles_def createElement_def
      appendChild_def split: option.splits)

lemma fresh_ok_getContainer: "fresh_ok s \<Longrightarrow> fresh_ok (snd (getContainer cfg e s))"
  by (simp add: fresh_ok_def getContainer_fields)

lemma fresh_ok_spawned: "fresh_ok s \<Longrightarrow> fresh_ok (spawned cfg d c s)"
  by (auto simp: fresh_ok_def spawned_fields set_add_def less_Suc_eq)

lemma fresh_ok_createSnowflake: "fresh_ok s \<Longrightarrow> fresh_ok (snd (createSnowflake cfg e d s))"
  by (rule createSnowflake_keeps[where P = fresh_ok])
    (simp_all add: fresh_ok_getContainer fresh_ok_spawned)

lemma fresh_ok_fold: "fresh_ok s \<Longrightarrow> fresh_ok (fold removeSnowflake xs s)"
  by (simp add: fresh_ok_def fold_removeSnowflake)

lemma fresh_ok_start: "fresh_ok (snd (startSnowflakes cfg e d s))"
proof -
  have p: "fresh_ok (prepared cfg s)"
    by (simp add: fresh_ok_def prepared_activeFlakes)
  have q: "fresh_ok (positioned e c t)" if "fresh_ok t" for c t
    using that by (simp add: fresh_ok_def positioned_def)
  have r: "fresh_ok (scheduled cfg t)" if "fresh_ok t" for t
    using that by (simp add: fresh_ok_def scheduled_def)
  show ?thesis
    by (cases rule: startSnowflakes_outcomes[of cfg e s d])
      (simp_all add: p q r fresh_ok_getContainer fresh_ok_createSnowflake)
qed

lemma fresh_ok_cleanup: "fresh_ok s \<Longrightarrow> fresh_ok (snd (cleanupSnowflakes cfg e s))"
proof -
  obtain r s1 where g: "getContainer cfg e s = (r, s1)" by fastforce
  assume t: "fresh_ok s"
  then have "fresh_ok s1" using fresh_ok_getContainer[of s cfg e] g by simp
  then show ?thesis using g t
    by (cases r) (simp_all add: cleanupSnowflakes_def Let_def fresh_ok_fold)
qed

lemma fresh_ok_step: "fresh_ok s \<Longrightarrow> fresh_ok (step cfg ev s)"
proof (cases ev)
  case (AnimationEnd n)
  assume t: "fresh_ok s"
  then have "fresh_ok (removeSnowflake n (s\<lparr>listeners := removeAll n (listeners s)\<rparr>))"
    by (simp add: fresh_ok_def removeSnowflake_eq)
  then show ?thesis using AnimationEnd t by simp
next
  case (Detached n)
  assume t: "fresh_ok s"
  then show ?thesis using Detached by (simp add: fresh_ok_def detach_def)
next
  case Stop
  then show ?thesis by (simp add: fresh_ok_def stop_activeFlakes)
qed (simp_all add: fresh_ok_start fresh_ok_createSnowflake fresh_ok_cleanup)

subsection \<open>Every reachable state is consistent\<close>

lemma consistent_parts: "consistent cfg s = (timers_ok cfg s \<and> style_ok s \<and> fresh_ok s)"
  by (simp add: consistent_def)

lemma consistent_initial: "consistent cfg (initial pg)"
  by (simp add: consistent_def timers_ok_def style_ok_def fresh_ok_def injected_def initial_def)

lemma consistent_step: "consistent cfg s \<Longrightarrow> consistent cfg (step cfg ev s)"
  by (simp add: consistent_parts timers_ok_step style_ok_step fresh_ok_step)

lemma consistent_fold: "consistent cfg s \<Longrightarrow> consistent cfg (fold (step cfg) evs s)"
  by (induction evs arbitrary: s) (simp_all add: consistent_step)

lemma consistent_run: "consistent cfg (run cfg evs (initial pg))"
  unfolding run_def by (rule consistent_fold) (rule consistent_initial)

subsection \<open>The bound on the tracked set\<close>

lemma bounded_by_getContainer: "bounded_by m s \<Longrightarrow> bounded_by m (snd (getContainer cfg e s))"
  by (simp add: bounded_by_def getContainer_fields)

lemma bounded_by_spawned:
  assumes "maxFlakes cfg = Some m" "m \<le> real_of_int k" "\<not> max_reached cfg s"
  shows "bounded_by k (spawned cfg d c s)"
proof -
  have "real (length (activeFlakes s)) < real_of_int k"
    using assms by (simp add: max_reached_def)
  then have "int (length (activeFlakes s)) < k"
    by (simp add: of_nat_less_of_int_iff)
  then show ?thesis
    by (simp add: bounded_by_def spawned_fields set_add_def)
qed

lemma bounded_by_createSnowflake:
  "maxFlakes cfg = Some m \<Longrightarrow> m \<le> real_of_int k \<Longrightarrow> bounded_by k s
   \<Longrightarrow> bounded_by k (snd (createSnowflake cfg e d s))"
  by (rule createSnowflake_keeps[where P = "bounded_by k"])
    (simp_all add: bounded_by_getContainer bounded_by_spawned)

lemma bounded_by_fold: "bounded_by m s \<Longrightarrow> bounded_by m (fold removeSnowflake xs s)"
proof -
  assume "bounded_by m s"
  moreover have "length (activeFlakes (fold removeSnowflake xs s)) \<le> length (activeFlakes s)"
    by (simp add: fold_removeSnowflake)
  ultimately show ?thesis unfolding bounded_by_def by linarith
qed

lemma bounded_by_empty: "bounded_by m s \<Longrightarrow> activeFlakes t = [] \<Longrightarrow> bounded_by m t"
  by (simp add: bounded_by_def)

lemma bounded_by_start:
  assumes "maxFlakes cfg = Some m" "m \<le> real_of_int k" "bounded_by k s"
  shows "bounded_by k (snd (startSnowflakes cfg e d s))"
proof -
  have p: "bounded_by k (prepared cfg s)"
    using assms(3) by (rule bounded_by_empty) (rule prepared_activeFlakes)
  have q: "bounded_by k (positioned e c t)" if "bounded_by k t" for c t
    using that by (simp add: bounded_by_def positioned_def)
  have r: "bounded_by k (scheduled cfg t)" if "bounded_by k t" for t
    using that by (simp add: bounded_by_def scheduled_def)
  show ?thesis
    by (cases rule: startSnowflakes_outcomes[of cfg e s d])
      (simp_all add: p q r bounded_by_getContainer bounded_by_createSnowflake assms(1,2))
qed

lemma bounded_by_cleanup: "bounded_by m s \<Longrightarrow> bounded_by m (snd (cleanupSnowflakes cfg e s))"
proof -
  obtain r s1 where g: "getContainer cfg e s = (r, s1)" by fastforce
  assume t: "bounded_by m s"
  then have "bounded_by m s1" using bounded_by_getContainer[of m s cfg e] g by simp
  then show ?thesis using g t
    by (cases r) (simp_all add: cleanupSnowflakes_def Let_def bounded_by_fold)
qed

lemma bounded_by_step:
  assumes "maxFlakes cfg = Some m" "m \<le> real_of_int k" "bounded_by k s"
  shows "bounded_by k (step cfg ev s)"
proof (cases ev)
  case (AnimationEnd n)
  have "bounded_by k (s\<lparr>listeners := removeAll n (listeners s)\<rparr>)"
    using assms(3) by (simp add: bounded_by_def)
  then have "bounded_by k (fold removeSnowflake [n] (s\<lparr>listeners := removeAll n (listeners s)\<rparr>))"
    by (rule bounded_by_fold)
  then show ?thesis using AnimationEnd assms(3) by simp
next
  case (Detached n)
  then show ?thesis using assms(3) by (simp add: bounded_by_def detach_def)
next
  case Stop
  then show ?thesis using bounded_by_empty[OF assms(3) stop_activeFlakes] by simp
qed (simp_all add: assms bounded_by_start bounded_by_createSnowflake bounded_by_cleanup)

lemma bounded_by_run:
  "maxFlakes cfg = Some m \<Longrightarrow> m \<le> real_of_int k \<Longrightarrow> bounded_by k s
   \<Longrightarrow> bounded_by k (run cfg evs s)"
  unfolding run_def by (induction evs arbitrary: s) (simp_all add: bounded_by_step)

subsection \<open>The resolved container stays\<close>

lemma stop_queried: "queried (stopSnowflakes s) = queried s"
  by (simp add: stopSnowflakes_def Let_def removeAllSnowflakes_eq removeStyles_def state_ops
      split: option.splits)

lemma stop_warned: "warned (stopSnowflakes s) = warned s"
  by (simp add: stopSnowflakes_def Let_def removeAllSnowflakes_eq removeStyles_def state_ops
      split: option.splits)

lemma resolved_as_stop: "resolved_as c q w s \<Longrightarrow> resolved_as c q w (stopSnowflakes s)"
  by (simp add: resolved_as_def stop_containerElement stop_queried stop_warned)

lemma resolved_as_getContainer:
  "resolved_as c q w s \<Longrightarrow> resolved_as c q w (snd (getContainer cfg e s))"
  by (simp add: resolved_as_def getContainer_cached)

lemma resolved_as_spawned: "resolved_as c q w s \<Longrightarrow> resolved_as c q w (spawned cfg d c' s)"
  by (simp add: resolved_as_def spawned_fields)

lemma resolved_as_createSnowflake:
  "resolved_as c q w s \<Longrightarrow> resolved_as c q w (snd (createSnowflake cfg e d s))"
  by (rule createSnowflake_keeps[where P = "resolved_as c q w"])
    (simp_all add: resolved_as_getContainer resolved_as_spawned)

lemma resolved_as_fold:
  "resolved_as c q w s \<Longrightarrow> resolved_as c q w (fold removeSnowflake xs s)"
  by (simp add: resolved_as_def fold_removeSnowflake)

lemma resolved_as_removeAll:
  "resolved_as c q w s \<Longrightarrow> resolved_as c q w (removeAllSnowflakes s)"
  by (simp add: resolved_as_def removeAllSnowflakes_eq)

lemma resolved_as_addStyles: "resolved_as c q w s \<Longrightarrow> resolved_as c q w (addStyles cfg s)"
  by (simp add: resolved_as_def addStyles_def createElement_def appendChild_def
      split: option.splits)

lemma resolved_as_prepared: "resolved_as c q w s \<Longrightarrow> resolved_as c q w (prepared cfg s)"
proof -
  assume r: "resolved_as c q w s"
  have "resolved_as c q w (if truthy (flakeIntervalId s) then stopSnowflakes s else s)"
    using r by (simp add: resolved_as_stop)
  then show ?thesis
    unfolding prepared_def by (intro resolved_as_addStyles resolved_as_removeAll)
qed

lemma resolved_as_start:
  assumes "resolved_as c q w s"
  shows "resolved_as c q w (snd (startSnowflakes cfg e d s))"
proof -
  have p: "resolved_as c q w (prepared cfg s)"
    using assms by (rule resolved_as_prepared)
  have po: "resolved_as c q w (positioned e c' t)" if "resolved_as c q w t" for c' t
    using that by (simp add: resolved_as_def positioned_def)
  have r: "resolved_as c q w (scheduled cfg t)" if "resolved_as c q w t" for t
    using that by (simp add: resolved_as_def scheduled_def)
  show ?thesis
    by (cases rule: startSnowflakes_outcomes[of cfg e s d])
      (simp_all add: p po r resolved_as_getContainer resolved_as_createSnowflake)
qed

lemma resolved_as_cleanup:
  "resolved_as c q w s \<Longrightarrow> resolved_as c q w (snd (cleanupSnowflakes cfg e s))"
  by (simp add: cleanupSnowflakes_def Let_def getContainer_cached[of s c] resolved_as_fold
      resolved_as_def[of c q w s])

lemma resolved_as_step: "resolved_as c q w s \<Longrightarrow> resolved_as c q w (step cfg ev s)"
proof (cases ev)
  case (AnimationEnd n)
  assume t: "resolved_as c q w s"
  then have "resolved_as c q w (removeSnowflake n (s\<lparr>listeners := removeAll n (listeners s)\<rparr>))"
    by (simp add: resolved_as_def removeSnowflake_eq)
  then show ?thesis using AnimationEnd t by simp
next
  case (Detached n)
  assume t: "resolved_as c q w s"
  then show ?thesis using Detached by (simp add: resolved_as_def detach_def)
qed (simp_all add: resolved_as_start resolved_as_stop resolved_as_createSnowflake
    resolved_as_cleanup)

lemma resolved_as_run: "resolved_as c q w s \<Longrightarrow> resolved_as c q w (run cfg evs s)"
  unfolding run_def by (induction evs arbitrary: s) (simp_all add: resolved_as_step)

subsection \<open>A detached flake stays tracked\<close>

lemma stranded_getContainer: "stranded f s \<Longrightarrow> stranded f (snd (getContainer cfg e s))"
  by (simp add: stranded_def getContainer_fields)

lemma stranded_spawned: "stranded f s \<Longrightarrow> stranded f (spawned cfg d c s)"
  by (auto simp: stranded_def spawned_fields set_add_def)

lemma stranded_createSnowflake:
  "stranded f s \<Longrightarrow> stranded f (snd (createSnowflake cfg e d s))"
  by (rule createSnowflake_keeps[where P = "stranded f"])
    (simp_all add: stranded_getContainer stranded_spawned)

lemma stranded_fold: "stranded f s \<Longrightarrow> stranded f (fold removeSnowflake xs s)"
  by (simp add: stranded_def fold_removeSnowflake)

lemma stranded_cleanup: "stranded f s \<Longrightarrow> stranded f (snd (cleanupSnowflakes cfg e s))"
proof -
  obtain r s1 where g: "getContainer cfg e s = (r, s1)" by fastforce
  assume t: "stranded f s"
  then have "stranded f s1" using stranded_getContainer[of f s cfg e] g by simp
  then show ?thesis using g t
    by (cases r) (simp_all add: cleanupSnowflakes_def Let_def stranded_fold)
qed

lemma stranded_step: "stranded f s \<Longrightarrow> \<not> restarts ev \<Longrightarrow> stranded f (step cfg ev s)"
proof (cases ev)
  case (AnimationEnd n)
  assume t: "stranded f s"
  then have "stranded f (removeSnowflake n (s\<lparr>listeners := removeAll n (listeners s)\<rparr>))"
    by (auto simp: stranded_def removeSnowflake_eq)
  then show ?thesis using AnimationEnd t by simp
next
  case (Detached n)
  assume t: "stranded f s"
  then show ?thesis using Detached by (simp add: stranded_def detach_def)
qed (simp_all add: stranded_createSnowflake stranded_cleanup)

lemma stranded_run:
  "stranded f s \<Longrightarrow> \<forall>ev \<in> set evs. \<not> restarts ev \<Longrightarrow> stranded f (run cfg evs s)"
  unfolding run_def by (induction evs arbitrary: s) (simp_all add: stranded_step)

subsection \<open>The tracked set after a start\<close>

lemma stop_nextNode: "nextNode (stopSnowflakes s) = nextNode s"
  by (simp add: stopSnowflakes_def Let_def removeAllSnowflakes_eq removeStyles_def state_ops
      split: option.splits)

lemma addStyles_nextNode: "nextNode s \<le> nextNode (addStyles cfg s)"
  by (simp add: addStyles_def createElement_def appendChild_def split: option.splits)

lemma prepared_nextNode: "nextNode s \<le> nextNode (prepared cfg s)"
proof -
  have "nextNode (removeAllSnowflakes (if truthy (flakeIntervalId s) then stopSnowflakes s else s))
          = nextNode s"
    by (simp add: removeAllSnowflakes_eq stop_nextNode)
  then show ?thesis
    unfolding prepared_def
    using addStyles_nextNode[of "removeAllSnowflakes (if truthy (flakeIntervalId s) then stopSnowflakes s else s)" cfg]
    by simp
qed

lemma createSnowflake_from_empty:
  assumes "activeFlakes t = []"
  shows "length (activeFlakes (snd (createSnowflake cfg e d t))) \<le> 1
         \<and> (\<forall>f \<in> set (activeFlakes (snd (createSnowflake cfg e d t))). nextNode t \<le> f)"
  using assms
  by (cases rule: createSnowflake_outcomes[of cfg t e d])
    (simp_all add: getContainer_fields spawned_fields set_add_def)

lemma start_activeFlakes:
  "length (activeFlakes (snd (startSnowflakes cfg e d s))) \<le> 1
   \<and> (\<forall>f \<in> set (activeFlakes (snd (startSnowflakes cfg e d s))). nextNode s \<le> f)"
proof (cases rule: startSnowflakes_outcomes[of cfg e s d])
  case (unresolved err)
  then show ?thesis by (simp add: getContainer_fields prepared_activeFlakes)
next
  case (spawn_throws c err)
  let ?t = "positioned e c (snd (getContainer cfg e (prepared cfg s)))"
  have "activeFlakes ?t = []" "nextNode ?t = nextNode (prepared cfg s)"
    by (simp_all add: positioned_def getContainer_fields prepared_activeFlakes)
  then show ?thesis
    using createSnowflake_from_empty[of ?t cfg e d] prepared_nextNode[of s cfg] spawn_throws(3)
    by auto
next
  case (started c r)
  let ?t = "positioned e c (snd (getContainer cfg e (prepared cfg s)))"
  have "activeFlakes ?t = []" "nextNode ?t = nextNode (prepared cfg s)"
    by (simp_all add: positioned_def getContainer_fields prepared_activeFlakes)
  then show ?thesis
    using createSnowflake_from_empty[of ?t cfg e d] prepared_nextNode[of s cfg] started(3)
    by (auto simp: scheduled_def)
qed

subsection \<open>The samples of a created flake\<close>

lemma createSnowflake_created:
  assumes "createSnowflake cfg e d s = (Inr (Some n), s')"
  shows "created s' n = Some (FlakeElement (sampled cfg d))
    \<and> 0 < round (random (uSize d) (minSize cfg) (maxSize cfg))
    \<and> n = nextNode s \<and> nextNode s' = Suc n \<and> n \<in> set (activeFlakes s')
    \<and> (\<exists>c. fst (getContainer cfg e s) = Inr c \<and> parentNode s' n = Some c)"
proof (cases rule: createSnowflake_outcomes[of cfg s e d])
  case guard
  then show ?thesis using assms by simp
next
  case (throws err)
  then show ?thesis using assms by simp
next
  case (small c)
  then show ?thesis using assms by simp
next
  case (spawns c)
  then have "n = nextNode s" "s' = spawned cfg d c (snd (getContainer cfg e s))"
    using assms by (simp_all add: getContainer_fields)
  then show ?thesis
    using spawns(2,3) by (simp add: spawned_fields getContainer_fields set_add_def)
qed

lemma max_magnitude_random:
  assumes "0 \<le> m"
  shows "max_magnitude (\<lambda>u. random u (- m) m) m"
  unfolding max_magnitude_def
proof (intro conjI allI impI)
  fix u :: real
  assume "unit_draw u"
  then have u: "0 \<le> u" "u < 1" by (simp_all add: unit_draw_def)
  have "random u (- m) m = (2 * u - 1) * m" by (simp add: random_def algebra_simps)
  moreover have "\<bar>2 * u - 1\<bar> \<le> 1" using u by (simp add: abs_le_iff)
  ultimately show "\<bar>random u (- m) m\<bar> \<le> m"
    using assms mult_right_mono[of "\<bar>2 * u - 1\<bar>" 1 m] by (simp add: abs_mult)
next
  show "\<exists>u. unit_draw u \<and> \<bar>random u (- m) m\<bar> = m"
    using assms by (intro exI[of _ 0]) (simp add: unit_draw_def random_def)
qed

text \<open>
  In exact arithmetic \<open>random(min, max)\<close> lies between \<open>min\<close> and \<open>max\<close> for a draw in
  \<open>[0, 1)\<close>, and \<open>randomInt(1, 99)\<close> between 1 and 99. The doubles of the code round, and
  overflow when \<open>max - min\<close> does; the two lemmas say nothing about them.
\<close>

lemma random_range:
  assumes "unit_draw u" "mn \<le> mx"
  shows "mn \<le> random u mn mx" "random u mn mx \<le> mx"
proof -
  from assms have u: "0 \<le> u" "u < 1" and d: "0 \<le> mx - mn" by (simp_all add: unit_draw_def)
  show "mn \<le> random u mn mx"
    using mult_nonneg_nonneg[OF u(1) d] by (simp add: random_def)
  have "u * (mx - mn) \<le> 1 * (mx - mn)"
    using u d by (intro mult_right_mono) simp_all
  then show "random u mn mx \<le> mx" by (simp add: random_def)
qed

lemma randomInt_range:
  assumes "unit_draw u"
  shows "1 \<le> randomInt u 1 99" "randomInt u 1 99 \<le> 99"
proof -
  from assms have u: "0 \<le> u" "u < 1" by (simp_all add: unit_draw_def)
  have r: "random u 1 (99 + 1) = 99 * u + 1" by (simp add: random_def)
  have "1 \<le> 99 * u + 1" "99 * u + 1 < 100" using u by simp_all
  then show "1 \<le> randomInt u 1 99" "randomInt u 1 99 \<le> 99"
    unfolding randomInt_def r by (simp_all add: le_floor_iff floor_le_iff)
qed

subsection \<open>The guards of \<open>createSnowflake\<close>\<close>

lemma createSnowflake_returns:
  assumes "containerElement t \<noteq> None"
  shows "\<exists>r. fst (createSnowflake cfg e d t) = Inr r"
proof -
  from assms obtain c where "containerElement t = Some c" by auto
  then have "getContainer cfg e t = (Inr c, t)" by (rule getContainer_cached)
  then show ?thesis
    by (cases rule: createSnowflake_outcomes[of cfg t e d]) simp_all
qed

lemma guards_skip:
  assumes "max_reached cfg s \<or> (containerElement s \<noteq> None
            \<and> round (random (uSize d) (minSize cfg) (maxSize cfg)) \<le> 0)"
  shows "createSnowflake cfg e d s = (Inr None, s)"
proof (cases "max_reached cfg s")
  case True
  then show ?thesis by (simp add: createSnowflake_def max_reached_def)
next
  case False
  with assms obtain c where c: "containerElement s = Some c"
    and small: "round (random (uSize d) (minSize cfg) (maxSize cfg)) \<le> 0" by auto
  have "getContainer cfg e s = (Inr c, s)" using c by (rule getContainer_cached)
  then show ?thesis using small
    by (cases rule: createSnowflake_outcomes[of cfg s e d]) simp_all
qed

lemma registered_resolved:
  "timers_ok cfg s \<Longrightarrow> registered cb s \<Longrightarrow> containerElement s \<noteq> None"
  by (auto simp: timers_ok_def registered_def)

lemma registered_scheduled: "registered SpawnCallback (scheduled cfg t)"
  by (simp add: registered_def scheduled_def spawn_timer_def)

subsection \<open>Restart\<close>

lemma prepared_after_stop:
  "truthy (flakeIntervalId s) \<Longrightarrow> prepared cfg (stopSnowflakes s) = prepared cfg s"
  by (simp add: prepared_def stop_flakeIntervalId)

lemma start_after_stop:
  "truthy (flakeIntervalId s) \<Longrightarrow>
     startSnowflakes cfg e d s = startSnowflakes cfg e d (stopSnowflakes s)"
  by (simp add: startSnowflakes_alt prepared_after_stop)

lemma style_at_addStyles:
  "styleElement t = None \<Longrightarrow> style_at (nextNode t) (addStyles cfg t)"
  by (simp add: style_at_def injected_def addStyles_def createElement_def appendChild_def)

lemma style_at_prepared:
  assumes "truthy (flakeIntervalId s)"
  shows "style_at (nextNode s) (prepared cfg s)"
proof -
  let ?t = "removeAllSnowflakes (stopSnowflakes s)"
  have "styleElement ?t = None" "nextNode ?t = nextNode s"
    by (simp_all add: removeAllSnowflakes_eq stop_styleElement stop_nextNode)
  then show ?thesis
    using style_at_addStyles[of ?t cfg] assms by (simp add: prepared_def)
qed

lemma style_at_getContainer: "style_at el s \<Longrightarrow> style_at el (snd (getContainer cfg e s))"
  by (simp add: style_at_def injected_def getContainer_fields)

lemma style_at_spawned: "style_at el s \<Longrightarrow> style_at el (spawned cfg d c s)"
  by (auto simp: style_at_def injected_def spawned_fields)

lemma style_at_createSnowflake:
  "style_at el s \<Longrightarrow> style_at el (snd (createSnowflake cfg e d s))"
  by (rule createSnowflake_keeps[where P = "style_at el"])
    (simp_all add: style_at_getContainer style_at_spawned)

lemma style_at_positioned: "style_at el s \<Longrightarrow> style_at el (positioned e c s)"
  by (simp add: style_at_def injected_def positioned_def)

lemma style_at_scheduled: "style_at el s \<Longrightarrow> style_at el (scheduled cfg s)"
  by (simp add: style_at_def injected_def scheduled_def)

lemma prepared_containerElement:
  "containerElement (prepared cfg s) = containerElement s"
proof -
  have a: "containerElement (addStyles cfg t) = containerElement t" for t
    by (simp add: addStyles_def createElement_def appendChild_def split: option.splits)
  have b: "containerElement (removeAllSnowflakes t) = containerElement t" for t
    by (simp add: removeAllSnowflakes_eq)
  show ?thesis
    unfolding prepared_def a b by (simp add: stop_containerElement)
qed

lemma restart_end_state:
  assumes c: "consistent cfg s" and run: "truthy (flakeIntervalId s)"
  shows "fst (startSnowflakes cfg e d s) = Inr ()
    \<and> styleElement (snd (startSnowflakes cfg e d s)) = Some (nextNode s)
    \<and> (\<forall>n. injected (snd (startSnowflakes cfg e d s)) n \<longleftrightarrow> n = nextNode s)
    \<and> (\<exists>h1 h2. h1 \<noteq> 0 \<and> h2 \<noteq> 0
          \<and> flakeIntervalId (snd (startSnowflakes cfg e d s)) = Some h1
          \<and> cleanupIntervalId (snd (startSnowflakes cfg e d s)) = Some h2
          \<and> intervals (snd (startSnowflakes cfg e d s)) = [spawn_timer cfg h1, sweep_timer h2])"
proof -
  from c have t: "timers_ok cfg s" and so: "style_ok s" by (simp_all add: consistent_def)
  from t run obtain k where k: "containerElement s = Some k"
    by (auto simp: timers_ok_def)
  have pk: "containerElement (prepared cfg s) = Some k"
    using k by (simp add: prepared_containerElement)
  then have g: "getContainer cfg e (prepared cfg s) = (Inr k, prepared cfg s)"
    by (rule getContainer_cached)
  let ?t = "positioned e k (prepared cfg s)"
  have "containerElement ?t \<noteq> None" using pk by (simp add: positioned_def)
  then obtain r where r: "fst (createSnowflake cfg e d ?t) = Inr r"
    using createSnowflake_returns by blast
  have st: "startSnowflakes cfg e d s = (Inr (), scheduled cfg (snd (createSnowflake cfg e d ?t)))"
    using g r by (cases "createSnowflake cfg e d ?t") (simp add: startSnowflakes_alt)
  let ?u = "snd (createSnowflake cfg e d ?t)"
  have sa: "style_at (nextNode s) (scheduled cfg ?u)"
    by (intro style_at_scheduled style_at_createSnowflake style_at_positioned
        style_at_prepared run)
  have "style_ok (snd (startSnowflakes cfg e d s))" using so by (rule style_ok_start)
  then have uniq: "\<forall>n. injected (scheduled cfg ?u) n \<longleftrightarrow> n = nextNode s"
    using sa unfolding st by (auto simp: style_ok_def style_at_def)
  have "idle ?u"
    using t by (intro idle_createSnowflake idle_positioned idle_prepared)
  then have "\<exists>h1 h2. h1 \<noteq> 0 \<and> h2 \<noteq> 0
          \<and> flakeIntervalId (scheduled cfg ?u) = Some h1
          \<and> cleanupIntervalId (scheduled cfg ?u) = Some h2
          \<and> intervals (scheduled cfg ?u) = [spawn_timer cfg h1, sweep_timer h2]"
    by (intro exI[of _ "Suc (lastHandle ?u)"] exI[of _ "Suc (Suc (lastHandle ?u))"])
      (simp add: idle_def scheduled_def)
  then show ?thesis
    using sa uniq unfolding st by (simp add: style_at_def)
qed

lemma prepared_restart:
  assumes "truthy (flakeIntervalId s)"
  shows "nextNode (prepared cfg s) = Suc (nextNode s)"
    and "parentNode (prepared cfg s) =
           (\<lambda>n. if n = nextNode s then Some document_head else parentNode (stopSnowflakes s) n)"
    and "created (prepared cfg s) = (created s)(nextNode s \<mapsto> StyleElement (zIndex cfg))"
proof -
  let ?t = "removeAllSnowflakes (stopSnowflakes s)"
  have t: "styleElement ?t = None" "nextNode ?t = nextNode s"
    "parentNode ?t = parentNode (stopSnowflakes s)" "created ?t = created s"
    by (simp_all add: removeAllSnowflakes_eq stop_styleElement stop_nextNode stop_activeFlakes
        stop_created)
  have p: "prepared cfg s = addStyles cfg ?t"
    using assms by (simp add: prepared_def)
  show "nextNode (prepared cfg s) = Suc (nextNode s)"
    unfolding p using t by (simp add: addStyles_def createElement_def appendChild_def)
  show "parentNode (prepared cfg s) =
           (\<lambda>n. if n = nextNode s then Some document_head else parentNode (stopSnowflakes s) n)"
    unfolding p using t
    by (auto simp: addStyles_def createElement_def appendChild_def fun_eq_iff)
  show "created (prepared cfg s) = (created s)(nextNode s \<mapsto> StyleElement (zIndex cfg))"
    unfolding p using t by (simp add: addStyles_def createElement_def appendChild_def)
qed

lemma restart_tracked:
  assumes c: "consistent cfg s" and run: "truthy (flakeIntervalId s)"
  shows "activeFlakes (snd (startSnowflakes cfg e d s))
           = (if first_spawn_skipped cfg d then [] else [Suc (nextNode s)])
    \<and> (\<forall>f \<in> set (activeFlakes s). parentNode (snd (startSnowflakes cfg e d s)) f = None)
    \<and> (\<not> first_spawn_skipped cfg d \<longrightarrow>
          parentNode (snd (startSnowflakes cfg e d s)) (Suc (nextNode s)) = containerElement s
          \<and> created (snd (startSnowflakes cfg e d s)) (Suc (nextNode s))
              = Some (FlakeElement (sampled cfg d)))"
proof -
  from c have t: "timers_ok cfg s" and fr: "fresh_ok s" by (simp_all add: consistent_def)
  from t run obtain k where k: "containerElement s = Some k"
    by (auto simp: timers_ok_def)
  have pk: "containerElement (prepared cfg s) = Some k"
    using k by (simp add: prepared_containerElement)
  then have g: "getContainer cfg e (prepared cfg s) = (Inr k, prepared cfg s)"
    by (rule getContainer_cached)
  let ?t = "positioned e k (prepared cfg s)"
  note pr = prepared_restart[OF run, of cfg]
  have tk: "containerElement ?t = Some k" using pk by (simp add: positioned_def)
  have tn: "nextNode ?t = Suc (nextNode s)" using pr(1) by (simp add: positioned_def)
  have ta: "activeFlakes ?t = []" by (simp add: positioned_def prepared_activeFlakes)
  have old: "parentNode ?t f = None" if "f \<in> set (activeFlakes s)" for f
  proof -
    have "f < nextNode s" using fr that by (simp add: fresh_ok_def)
    then show ?thesis using that by (simp add: positioned_def pr(2) stop_parentNode)
  qed
  have gt: "getContainer cfg e ?t = (Inr k, ?t)" using tk by (rule getContainer_cached)
  have mr: "max_reached cfg ?t
      \<longleftrightarrow> (case maxFlakes cfg of None \<Rightarrow> False | Some m \<Rightarrow> m \<le> 0)"
    by (simp add: max_reached_def ta split: option.splits)
  obtain r where r: "fst (createSnowflake cfg e d ?t) = Inr r"
    using createSnowflake_returns[of ?t cfg e d] tk by auto
  have st: "startSnowflakes cfg e d s = (Inr (), scheduled cfg (snd (createSnowflake cfg e d ?t)))"
    using g r by (cases "createSnowflake cfg e d ?t") (simp add: startSnowflakes_alt)
  show ?thesis
  proof (cases rule: createSnowflake_outcomes[of cfg ?t e d])
    case guard
    then have "first_spawn_skipped cfg d" using mr by (simp add: first_spawn_skipped_def)
    then show ?thesis
      unfolding st using guard(2) ta old by (simp add: scheduled_def)
  next
    case (throws err)
    then show ?thesis using gt by simp
  next
    case (small c')
    then have "first_spawn_skipped cfg d" by (simp add: first_spawn_skipped_def)
    then show ?thesis
      unfolding st using small(4) gt ta old by (simp add: scheduled_def)
  next
    case (spawns c')
    then have ns: "\<not> first_spawn_skipped cfg d" using mr by (simp add: first_spawn_skipped_def)
    have c': "c' = k" using spawns(2) gt by simp
    have u: "snd (createSnowflake cfg e d ?t) = spawned cfg d k ?t"
      using spawns(4) gt c' by simp
    have "f \<noteq> Suc (nextNode s)" if "f \<in> set (activeFlakes s)" for f
      using fr that by (auto simp: fresh_ok_def)
    then show ?thesis
      unfolding st u using ns ta tn old k
      by (auto simp: scheduled_def spawned_fields set_add_def)
  qed
qed

subsection \<open>The position override\<close>

lemma stop_stylePosition:
  "containerElement t = Some c \<Longrightarrow> c \<noteq> document_body \<Longrightarrow>
     stylePosition (stopSnowflakes t) c =
       (case positionAttribute t c of None \<Rightarrow> stylePosition t c
        | Some orig \<Rightarrow> if orig = ''static'' then '''' else orig)"
  by (simp add: stopSnowflakes_def Let_def removeAllSnowflakes_eq removeStyles_def state_ops
      split: option.splits)

lemma prepared_stylePosition:
  "\<not> truthy (flakeIntervalId s) \<Longrightarrow> stylePosition (prepared cfg s) = stylePosition s"
  by (simp add: prepared_def removeAllSnowflakes_eq addStyles_def createElement_def
      appendChild_def split: option.splits)

lemma overridden_getContainer:
  "overridden c p a s \<Longrightarrow> overridden c p a (snd (getContainer cfg e s))"
  by (simp add: overridden_def getContainer_cached)

lemma overridden_spawned: "overridden c p a s \<Longrightarrow> overridden c p a (spawned cfg d c' s)"
  by (simp add: overridden_def spawned_fields)

lemma overridden_createSnowflake:
  "overridden c p a s \<Longrightarrow> overridden c p a (snd (createSnowflake cfg e d s))"
  by (rule createSnowflake_keeps[where P = "overridden c p a"])
    (simp_all add: overridden_getContainer overridden_spawned)

lemma overridden_scheduled: "overridden c p a s \<Longrightarrow> overridden c p a (scheduled cfg s)"
  by (simp add: overridden_def scheduled_def)

lemma start_overrides:
  assumes idle: "\<not> truthy (flakeIntervalId s)"
    and st: "startSnowflakes cfg e d s = (Inr (), s')"
    and c: "containerElement s' = Some c" "c \<noteq> document_body"
      "computedPosition e c = ''static''"
  shows "overridden c ''relative''
           (Some (if stylePosition s c = '''' then ''static'' else stylePosition s c)) s'"
proof (cases rule: startSnowflakes_outcomes[of cfg e s d])
  case (unresolved err)
  then show ?thesis using st by simp
next
  case (spawn_throws k err)
  then show ?thesis using st by simp
next
  case (started k r)
  let ?s3 = "snd (getContainer cfg e (prepared cfg s))"
  have k: "containerElement ?s3 = Some k"
    using started(1) by (rule getContainer_resolved)
  have "overridden k (stylePosition (positioned e k ?s3) k) (positionAttribute (positioned e k ?s3) k)
          (positioned e k ?s3)"
    using k by (simp add: overridden_def positioned_def)
  then have o: "overridden k (stylePosition (positioned e k ?s3) k)
          (positionAttribute (positioned e k ?s3) k) s'"
    using started(3) st by (auto intro: overridden_scheduled overridden_createSnowflake)
  then have "k = c" using c(1) by (simp add: overridden_def)
  moreover have "stylePosition ?s3 = stylePosition s"
    using idle by (simp add: getContainer_fields prepared_stylePosition)
  ultimately show ?thesis
    using o c(2,3) by (auto simp: positioned_def)
qed

subsection \<open>The concrete page, evaluated\<close>

lemmas eval_defs =
  static_page_def page0_def env0_def draws0_def container_config_def capped_config_def
  zero_config_def tiny_config_def selector_config_def
  default_config_def initial_def document_body_def document_head_def
  startSnowflakes_alt prepared_def positioned_def scheduled_def
  removeAllSnowflakes_eq removeSnowflake_eq addStyles_def createElement_def appendChild_def
  getContainer_def createSnowflake_def cleanupSnowflakes_def Let_def random_def randomInt_def
  stopSnowflakes_def removeStyles_def clearInterval_def detach_def set_add_def
  spawn_timer_def sweep_timer_def run_def registered_def max_reached_def
  xDeviation_def xDeviationEnd_def maxDeviation_def chaosMultiplier_def unit_draw_def
  unit_draws_def not_found_warning_def

lemma capped_started:
  "activeFlakes (run capped_config [Start env0 draws0] (initial page0)) = [4]"
  "registered SpawnCallback (run capped_config [Start env0 draws0] (initial page0))"
  "max_reached capped_config (run capped_config [Start env0 draws0] (initial page0))"
  "maxFlakes capped_config = Some 1"
  by (simp_all add: eval_defs)

lemma default_started:
  "flakeIntervalId (run default_config [Start env0 draws0] (initial page0)) = Some 1"
  "activeFlakes (run default_config [Start env0 draws0] (initial page0)) = [4]"
  "parentNode (run default_config [Start env0 draws0] (initial page0)) 4 = Some 0"
  "nextNode (run default_config [Start env0 draws0] (initial page0)) = 5"
  by (simp_all add: eval_defs)

lemma container_started:
  "truthy (flakeIntervalId (run container_config [Start env0 draws0] (initial page0)))"
  "activeFlakes (run container_config [Start env0 draws0] (initial page0)) = [4]"
  "nextNode (run container_config [Start env0 draws0] (initial page0)) = 5"
  "containerElement (run container_config [Start env0 draws0] (initial page0)) = Some 2"
  "\<not> first_spawn_skipped container_config draws0"
  by (simp_all add: eval_defs first_spawn_skipped_def)

lemma container_start_eval:
  "\<not> truthy (flakeIntervalId (initial page0))"
  "fst (startSnowflakes container_config env0 draws0 (initial page0)) = Inr ()"
  "containerElement (snd (startSnowflakes container_config env0 draws0 (initial page0))) = Some 2"
  "2 \<noteq> document_body" "computedPosition env0 2 = ''static''"
  "stylePosition (initial page0) 2 = ''''"
  by (simp_all add: eval_defs)

lemma default_spawn_eval:
  "createSnowflake default_config env0 draws0 (initial page0)
     = (Inr (Some 3), snd (createSnowflake default_config env0 draws0 (initial page0)))"
  "unit_draw (1 / 2)" "unit_draws draws0"
  "minSpeed default_config \<le> maxSpeed default_config"
  "minSize default_config \<le> maxSize default_config"
  by (simp_all add: eval_defs prod_eq_iff)

lemma tiny_eval:
  "round (random (uSize draws0) (minSize tiny_config) (maxSize tiny_config)) \<le> 0"
  "minSpeed tiny_config \<le> maxSpeed tiny_config" "minSize tiny_config \<le> maxSize tiny_config"
  "containerElement (run tiny_config [Start env0 draws0] (initial page0)) \<noteq> None"
  "fst (startSnowflakes tiny_config env0 draws0 (initial page0)) = Inr ()"
  by (simp_all add: eval_defs)

lemma selector_eval:
  "containerElement (initial page0) = None"
  "container selector_config = Selector ''#snow''"
  "querySelector env0 ''#snow'' = NoMatch"
  "queried (initial page0) = []" "warned (initial page0) = []"
  "containerElement (run selector_config [Start env0 draws0] (initial page0))
     = Some document_body"
  "warned (run selector_config [Start env0 draws0] (initial page0))
     = [not_found_warning ''#snow'']"
  "queried (run selector_config [Start env0 draws0] (initial page0)) = [''#snow'']"
  by (simp_all add: eval_defs)

lemma detached_eval:
  "4 \<in> set (activeFlakes (step default_config (Detached 4)
        (run default_config [Start env0 draws0] (initial page0))))"
  "parentNode (step default_config (Detached 4)
        (run default_config [Start env0 draws0] (initial page0))) 4 = None"
  "4 < nextNode (step default_config (Detached 4)
        (run default_config [Start env0 draws0] (initial page0)))"
  "\<forall>ev \<in> set [SpawnTick env0 draws0, SweepTick env0, AnimationEnd 4]. \<not> restarts ev"
  "4 \<notin> set (activeFlakes (removeSnowflake 4
        (run default_config [Start env0 draws0] (initial page0))))"
  by (simp_all add: eval_defs)

section \<open>The claims\<close>

text \<open>
  Claim C1 as the spec states it, for every number \<open>maxFlakes = N\<close>, fails for a cap
  that is not a whole number and for a negative one. With \<open>maxFlakes = 1.5\<close> the guard
  \<open>activeFlakes.size >= maxFlakes\<close> lets the start and the first tick spawn, and the set
  holds 2 flakes; with \<open>maxFlakes = -1\<close> the set stays empty, and its size 0 is above
  the cap.
\<close>

theorem maxFlakes_exceeded:
  "maxFlakes fractional_config = Some (3 / 2)
   \<and> length (activeFlakes
         (run fractional_config [Start env0 draws0, SpawnTick env0 draws0] (initial page0))) = 2
   \<and> \<not> real (length (activeFlakes
         (run fractional_config [Start env0 draws0, SpawnTick env0 draws0] (initial page0))))
       \<le> 3 / 2
   \<and> maxFlakes negative_config = Some (- 1)
   \<and> length (activeFlakes
         (run negative_config [Start env0 draws0, SpawnTick env0 draws0] (initial page0))) = 0
   \<and> \<not> real (length (activeFlakes
         (run negative_config [Start env0 draws0, SpawnTick env0 draws0] (initial page0))))
       \<le> - 1"
  by (simp add: fractional_config_def negative_config_def eval_defs)

text \<open>
  Claim C1, as amended. With \<open>maxFlakes = m\<close>, any number, \<open>createSnowflake\<close> returns
  \<open>null\<close> and leaves the state as it is whenever the tracked set holds \<open>m\<close> flakes or
  more, so nothing is created or attached. When \<open>m\<close> is a whole number \<open>k\<close>, a tracked
  set of at most \<open>k\<close> flakes stays so after one \<open>createSnowflake\<close> and after any
  sequence of events (starts, stops, spawn and sweep ticks, animation ends, outside
  removals), whatever the browser answers and whatever is drawn; from the state
  \<open>useSnowfall\<close> returns, whose set is empty, the size never exceeds \<open>k\<close> for every
  \<open>k \<ge> 0\<close>. For a cap \<open>m \<ge> 0\<close> that is not a whole number the size never exceeds
  \<open>m\<close> rounded up.
\<close>

theorem maxFlakes_bound:
  "maxFlakes cfg = Some m \<longrightarrow>
     (m \<le> real (length (activeFlakes s)) \<longrightarrow> createSnowflake cfg e d s = (Inr None, s))
     \<and> (m = real_of_int k \<and> int (length (activeFlakes s)) \<le> k \<longrightarrow>
          int (length (activeFlakes (snd (createSnowflake cfg e d s)))) \<le> k
          \<and> int (length (activeFlakes (run cfg evs s))) \<le> k)
     \<and> (m = real_of_int k \<and> 0 \<le> k \<longrightarrow>
          int (length (activeFlakes (run cfg evs (initial pg)))) \<le> k)
     \<and> (0 \<le> m \<longrightarrow> int (length (activeFlakes (run cfg evs (initial pg)))) \<le> \<lceil>m\<rceil>)"
proof (intro impI conjI)
  assume m: "maxFlakes cfg = Some m"
  show "createSnowflake cfg e d s = (Inr None, s)" if "m \<le> real (length (activeFlakes s))"
    using m that by (simp add: createSnowflake_def)
  show "int (length (activeFlakes (snd (createSnowflake cfg e d s)))) \<le> k"
    if a: "m = real_of_int k \<and> int (length (activeFlakes s)) \<le> k"
  proof -
    from a have "m \<le> real_of_int k" "bounded_by k s" by (simp_all add: bounded_by_def)
    then have "bounded_by k (snd (createSnowflake cfg e d s))"
      by (intro bounded_by_createSnowflake[OF m])
    then show ?thesis by (simp add: bounded_by_def)
  qed
  show "int (length (activeFlakes (run cfg evs s))) \<le> k"
    if a: "m = real_of_int k \<and> int (length (activeFlakes s)) \<le> k"
  proof -
    from a have "m \<le> real_of_int k" "bounded_by k s" by (simp_all add: bounded_by_def)
    then have "bounded_by k (run cfg evs s)"
      by (intro bounded_by_run[OF m])
    then show ?thesis by (simp add: bounded_by_def)
  qed
  show "int (length (activeFlakes (run cfg evs (initial pg)))) \<le> k"
    if a: "m = real_of_int k \<and> 0 \<le> k"
  proof -
    from a have "m \<le> real_of_int k" "bounded_by k (initial pg)"
      by (simp_all add: bounded_by_def initial_def)
    then have "bounded_by k (run cfg evs (initial pg))"
      by (intro bounded_by_run[OF m])
    then show ?thesis by (simp add: bounded_by_def)
  qed
  show "int (length (activeFlakes (run cfg evs (initial pg)))) \<le> \<lceil>m\<rceil>" if a: "0 \<le> m"
  proof -
    have "m \<le> real_of_int \<lceil>m\<rceil>" by (rule le_of_int_ceiling)
    moreover have "0 \<le> \<lceil>m\<rceil>" using a by (simp add: ceiling_le_iff[symmetric] zero_le_ceiling le_ceiling_iff)
    then have "bounded_by \<lceil>m\<rceil> (initial pg)"
      by (simp add: bounded_by_def initial_def)
    ultimately have "bounded_by \<lceil>m\<rceil> (run cfg evs (initial pg))"
      by (intro bounded_by_run[OF m])
    then show ?thesis by (simp add: bounded_by_def)
  qed
qed

theorem maxFlakes_bound_witness:
  "maxFlakes capped_config = Some 1 \<and> (1::real) = real_of_int 1 \<and> (0::int) \<le> 1
   \<and> 1 \<le> real (length (activeFlakes (run capped_config [Start env0 draws0] (initial page0))))
   \<and> int (length (activeFlakes (run capped_config [Start env0 draws0] (initial page0)))) \<le> 1
   \<and> createSnowflake capped_config env0 draws0
        (run capped_config [Start env0 draws0] (initial page0))
      = (Inr None, run capped_config [Start env0 draws0] (initial page0))
   \<and> int (length (activeFlakes
        (run capped_config [SpawnTick env0 draws0, SpawnTick env0 draws0]
          (run capped_config [Start env0 draws0] (initial page0))))) \<le> 1
   \<and> int (length (activeFlakes
        (run capped_config [Start env0 draws0, SpawnTick env0 draws0] (initial page0)))) \<le> 1
   \<and> maxFlakes fractional_config = Some (3 / 2) \<and> (0::real) \<le> 3 / 2
   \<and> int (length (activeFlakes
        (run fractional_config [Start env0 draws0, SpawnTick env0 draws0, SpawnTick env0 draws0]
          (initial page0)))) \<le> 2"
proof -
  have f: "maxFlakes fractional_config = Some (3 / 2)" "\<lceil>3 / 2 :: real\<rceil> = 2"
    by (simp_all add: fractional_config_def ceiling_eq_iff)
  have a: "createSnowflake capped_config env0 draws0
        (run capped_config [Start env0 draws0] (initial page0))
      = (Inr None, run capped_config [Start env0 draws0] (initial page0))
   \<and> int (length (activeFlakes
        (run capped_config [SpawnTick env0 draws0, SpawnTick env0 draws0]
          (run capped_config [Start env0 draws0] (initial page0))))) \<le> 1"
    using maxFlakes_bound[of capped_config 1
        "run capped_config [Start env0 draws0] (initial page0)" env0 draws0 1
        "[SpawnTick env0 draws0, SpawnTick env0 draws0]" page0]
      capped_started(1,4)
    by simp
  have b: "int (length (activeFlakes
        (run capped_config [Start env0 draws0, SpawnTick env0 draws0] (initial page0)))) \<le> 1"
    using maxFlakes_bound[of capped_config 1
        "run capped_config [Start env0 draws0] (initial page0)" env0 draws0 1
        "[Start env0 draws0, SpawnTick env0 draws0]" page0]
      capped_started(4)
    by simp
  have c: "int (length (activeFlakes
        (run fractional_config [Start env0 draws0, SpawnTick env0 draws0, SpawnTick env0 draws0]
          (initial page0)))) \<le> 2"
    using maxFlakes_bound[of fractional_config "3 / 2" "initial page0" env0 draws0 2
        "[Start env0 draws0, SpawnTick env0 draws0, SpawnTick env0 draws0]" page0]
      f
    by simp
  show ?thesis using a b c f(1) capped_started(1,4) by simp
qed

text \<open>
  Claim C2. \<open>stopSnowflakes\<close> is a total function of the state: none of its steps can
  throw. After it the tracked set is empty and \<open>styleElement\<close> is \<open>null\<close>, in every
  state, and calling it \<open>k + 1\<close> times gives the state one call gives. In every state
  the instance can reach from the one \<open>useSnowfall\<close> returns, both interval handles are
  \<open>null\<close> afterwards, no interval of the instance is registered, and no style element
  of the instance is left in \<open>document.head\<close>.
\<close>

theorem stop_idempotent:
  "activeFlakes (stopSnowflakes s) = []
   \<and> styleElement (stopSnowflakes s) = None
   \<and> (stopSnowflakes ^^ Suc k) s = stopSnowflakes s
   \<and> (s = run cfg evs (initial pg) \<longrightarrow>
        flakeIntervalId (stopSnowflakes s) = None
        \<and> cleanupIntervalId (stopSnowflakes s) = None
        \<and> intervals (stopSnowflakes s) = []
        \<and> (\<forall>n. \<not> injected (stopSnowflakes s) n))"
proof (intro conjI impI allI)
  show "activeFlakes (stopSnowflakes s) = []" by (rule stop_activeFlakes)
  show "styleElement (stopSnowflakes s) = None" by (rule stop_styleElement)
  show "(stopSnowflakes ^^ Suc k) s = stopSnowflakes s" by (rule stop_funpow)
  assume r: "s = run cfg evs (initial pg)"
  then have c: "consistent cfg s" by (simp add: consistent_run)
  then have "timers_ok cfg s" and so: "style_ok s" by (simp_all add: consistent_def)
  then have "idle (stopSnowflakes s)" by (intro idle_stop)
  then show "flakeIntervalId (stopSnowflakes s) = None"
    "cleanupIntervalId (stopSnowflakes s) = None" "intervals (stopSnowflakes s) = []"
    by (simp_all add: idle_def)
  show "\<not> injected (stopSnowflakes s) n" for n
    using so by (rule none_injected_stop)
qed

theorem stop_idempotent_witness:
  "flakeIntervalId (run default_config [Start env0 draws0] (initial page0)) = Some 1
   \<and> flakeIntervalId (stopSnowflakes (run default_config [Start env0 draws0] (initial page0)))
       = None
   \<and> intervals (stopSnowflakes (run default_config [Start env0 draws0] (initial page0))) = []
   \<and> (stopSnowflakes ^^ 3) (run default_config [Start env0 draws0] (initial page0))
       = stopSnowflakes (run default_config [Start env0 draws0] (initial page0))"
  using stop_idempotent[of "run default_config [Start env0 draws0] (initial page0)" 2
      default_config "[Start env0 draws0]" page0] default_started(1)
  by (simp add: numeral_3_eq_3)

text \<open>
  Claim C3. When \<open>if (flakeIntervalId)\<close> holds, \<open>startSnowflakes\<close> gives exactly the
  result and state of \<open>stopSnowflakes\<close> followed by \<open>startSnowflakes\<close>, for the same
  browser answers and draws. In a reachable state a spawn handle that is not \<open>null\<close>
  passes that test (the host issues handles greater than zero); the call then returns
  normally, and afterwards exactly one style element of the instance is in
  \<open>document.head\<close>, the one \<open>styleElement\<close> holds; exactly the spawn interval and
  the sweep interval are registered, under the two stored handles. The tracked set is
  cleared and repopulated: every flake tracked before is out of the document and out of
  the set, and the set holds exactly the one flake the call creates, the node handed out
  after the new style element, attached to the container and carrying the samples of the
  draws; it is empty when that first spawn is skipped by a guard.
\<close>

theorem restart_is_stop_then_start:
  "(truthy (flakeIntervalId s) \<longrightarrow>
      startSnowflakes cfg e d s = startSnowflakes cfg e d (stopSnowflakes s))
   \<and> (s = run cfg evs (initial pg) \<and> flakeIntervalId s \<noteq> None \<longrightarrow>
        truthy (flakeIntervalId s)
        \<and> startSnowflakes cfg e d s = startSnowflakes cfg e d (stopSnowflakes s)
        \<and> fst (startSnowflakes cfg e d s) = Inr ()
        \<and> (\<exists>el. styleElement (snd (startSnowflakes cfg e d s)) = Some el
              \<and> (\<forall>n. injected (snd (startSnowflakes cfg e d s)) n \<longleftrightarrow> n = el))
        \<and> (\<exists>h1 h2. h1 \<noteq> 0 \<and> h2 \<noteq> 0
              \<and> flakeIntervalId (snd (startSnowflakes cfg e d s)) = Some h1
              \<and> cleanupIntervalId (snd (startSnowflakes cfg e d s)) = Some h2
              \<and> intervals (snd (startSnowflakes cfg e d s))
                  = [spawn_timer cfg h1, sweep_timer h2])
        \<and> length (activeFlakes (snd (startSnowflakes cfg e d s))) \<le> 1
        \<and> set (activeFlakes (snd (startSnowflakes cfg e d s))) \<inter> set (activeFlakes s) = {}
        \<and> activeFlakes (snd (startSnowflakes cfg e d s))
            = (if first_spawn_skipped cfg d then [] else [Suc (nextNode s)])
        \<and> (\<forall>f \<in> set (activeFlakes s). parentNode (snd (startSnowflakes cfg e d s)) f = None)
        \<and> (\<not> first_spawn_skipped cfg d \<longrightarrow>
              parentNode (snd (startSnowflakes cfg e d s)) (Suc (nextNode s))
                = containerElement s
              \<and> created (snd (startSnowflakes cfg e d s)) (Suc (nextNode s))
                  = Some (FlakeElement (sampled cfg d))))"
proof (intro impI conjI)
  show "startSnowflakes cfg e d s = startSnowflakes cfg e d (stopSnowflakes s)"
    if "truthy (flakeIntervalId s)"
    using that by (rule start_after_stop)
next
  assume a: "s = run cfg evs (initial pg) \<and> flakeIntervalId s \<noteq> None"
  then have r: "s = run cfg evs (initial pg)" and set: "flakeIntervalId s \<noteq> None"
    by blast+
  have c: "consistent cfg s" unfolding r by (rule consistent_run)
  then have "timers_ok cfg s" by (simp add: consistent_def)
  with set show run: "truthy (flakeIntervalId s)"
    by (auto simp: timers_ok_def)
  then show "startSnowflakes cfg e d s = startSnowflakes cfg e d (stopSnowflakes s)"
    by (rule start_after_stop)
  note es = restart_end_state[OF c run, of e d]
  note tr = restart_tracked[OF c run, of e d]
  from es show "fst (startSnowflakes cfg e d s) = Inr ()" by blast
  from es show "\<exists>el. styleElement (snd (startSnowflakes cfg e d s)) = Some el
              \<and> (\<forall>n. injected (snd (startSnowflakes cfg e d s)) n \<longleftrightarrow> n = el)"
    by blast
  from es show "\<exists>h1 h2. h1 \<noteq> 0 \<and> h2 \<noteq> 0
              \<and> flakeIntervalId (snd (startSnowflakes cfg e d s)) = Some h1
              \<and> cleanupIntervalId (snd (startSnowflakes cfg e d s)) = Some h2
              \<and> intervals (snd (startSnowflakes cfg e d s))
                  = [spawn_timer cfg h1, sweep_timer h2]"
    by blast
  show "length (activeFlakes (snd (startSnowflakes cfg e d s))) \<le> 1"
    using start_activeFlakes[of cfg e d s] by blast
  have "fresh_ok s" using c by (simp add: consistent_def)
  then show "set (activeFlakes (snd (startSnowflakes cfg e d s))) \<inter> set (activeFlakes s) = {}"
    using start_activeFlakes[of cfg e d s] by (fastforce simp: fresh_ok_def)
  from tr show "activeFlakes (snd (startSnowflakes cfg e d s))
            = (if first_spawn_skipped cfg d then [] else [Suc (nextNode s)])"
    by (rule conjunct1)
  from tr show "\<forall>f \<in> set (activeFlakes s). parentNode (snd (startSnowflakes cfg e d s)) f = None"
    by blast
  show "parentNode (snd (startSnowflakes cfg e d s)) (Suc (nextNode s)) = containerElement s"
    "created (snd (startSnowflakes cfg e d s)) (Suc (nextNode s))
       = Some (FlakeElement (sampled cfg d))"
    if "\<not> first_spawn_skipped cfg d"
    using tr that by blast+
qed

theorem restart_is_stop_then_start_witness:
  "flakeIntervalId (run container_config [Start env0 draws0] (initial page0)) \<noteq> None
   \<and> truthy (flakeIntervalId (run container_config [Start env0 draws0] (initial page0)))
   \<and> startSnowflakes container_config env0 draws0
        (run container_config [Start env0 draws0] (initial page0))
      = startSnowflakes container_config env0 draws0
          (stopSnowflakes (run container_config [Start env0 draws0] (initial page0)))
   \<and> fst (startSnowflakes container_config env0 draws0
            (run container_config [Start env0 draws0] (initial page0))) = Inr ()
   \<and> activeFlakes (run container_config [Start env0 draws0] (initial page0)) = [4]
   \<and> \<not> first_spawn_skipped container_config draws0
   \<and> activeFlakes (snd (startSnowflakes container_config env0 draws0
        (run container_config [Start env0 draws0] (initial page0)))) = [6]
   \<and> parentNode (snd (startSnowflakes container_config env0 draws0
        (run container_config [Start env0 draws0] (initial page0)))) 4 = None
   \<and> parentNode (snd (startSnowflakes container_config env0 draws0
        (run container_config [Start env0 draws0] (initial page0)))) 6 = Some 2"
proof -
  let ?s = "run container_config [Start env0 draws0] (initial page0)"
  let ?s' = "snd (startSnowflakes container_config env0 draws0 ?s)"
  have n: "flakeIntervalId ?s \<noteq> None"
    using container_started(1) by (cases "flakeIntervalId ?s") simp_all
  note T = restart_is_stop_then_start[of ?s container_config env0 draws0
      "[Start env0 draws0]" page0]
  have r: "?s = run container_config [Start env0 draws0] (initial page0) \<and> flakeIntervalId ?s \<noteq> None"
    using n by simp
  have a: "truthy (flakeIntervalId ?s)"
    and b: "startSnowflakes container_config env0 draws0 ?s
         = startSnowflakes container_config env0 draws0 (stopSnowflakes ?s)"
    and c: "fst (startSnowflakes container_config env0 draws0 ?s) = Inr ()"
    and act: "activeFlakes ?s'
         = (if first_spawn_skipped container_config draws0 then [] else [Suc (nextNode ?s)])"
    and old: "\<forall>f \<in> set (activeFlakes ?s). parentNode ?s' f = None"
    and new: "\<not> first_spawn_skipped container_config draws0 \<longrightarrow>
         parentNode ?s' (Suc (nextNode ?s)) = containerElement ?s
         \<and> created ?s' (Suc (nextNode ?s)) = Some (FlakeElement (sampled container_config draws0))"
    using T r by blast+
  have "activeFlakes ?s' = [6]"
    using act container_started(3,5) by simp
  moreover have "parentNode ?s' 4 = None"
    using old container_started(2) by simp
  moreover have "parentNode ?s' 6 = Some 2"
    using new container_started(3,4,5) by simp
  ultimately show ?thesis
    using n a b c container_started(2,5) by simp
qed

text \<open>
  Claim C4 as the spec states it fails for a container with the inline style
  \<open>position: static\<close>: its computed position is \<open>static\<close>, the start stores
  \<open>static\<close> in the attribute, and the stop, reading \<open>static\<close> as the mark of an
  absent inline value, leaves the empty string.
\<close>

theorem inline_static_not_restored:
  "stylePosition (initial static_page) 2 = ''static''
   \<and> computedPosition env0 2 = ''static''
   \<and> 2 \<noteq> document_body
   \<and> fst (startSnowflakes container_config env0 draws0 (initial static_page)) = Inr ()
   \<and> containerElement (snd (startSnowflakes container_config env0 draws0 (initial static_page)))
       = Some 2
   \<and> stylePosition
        (stopSnowflakes (snd (startSnowflakes container_config env0 draws0 (initial static_page))))
        2 = ''''
   \<and> stylePosition
        (stopSnowflakes (snd (startSnowflakes container_config env0 draws0 (initial static_page))))
        2 \<noteq> stylePosition (initial static_page) 2"
  by (simp add: static_page_def page0_def env0_def draws0_def container_config_def
      default_config_def initial_def document_body_def
      startSnowflakes_alt prepared_def positioned_def scheduled_def
      removeAllSnowflakes_eq addStyles_def createElement_def appendChild_def
      getContainer_def createSnowflake_def Let_def random_def randomInt_def
      stopSnowflakes_def removeStyles_def clearInterval_def detach_def set_add_def
      spawn_timer_def sweep_timer_def)

text \<open>
  Claim C4, as amended. Start an instance that is not running on a container \<open>c\<close> other
  than \<open>document.body\<close> whose computed position is \<open>static\<close>. The start sets the
  inline position to \<open>relative\<close>; a stop right after it removes the attribute and
  leaves the inline position at its value before the start, except that an inline value
  \<open>static\<close> is left as the empty string. An absent inline value (the empty string)
  comes back as the empty string.
\<close>

theorem position_restored_unless_inline_static:
  "\<not> truthy (flakeIntervalId s) \<and> startSnowflakes cfg e d s = (Inr (), s')
   \<and> containerElement s' = Some c \<and> c \<noteq> document_body \<and> computedPosition e c = ''static''
   \<longrightarrow> stylePosition s' c = ''relative''
       \<and> stylePosition (stopSnowflakes s') c
           = (if stylePosition s c = ''static'' then '''' else stylePosition s c)
       \<and> positionAttribute (stopSnowflakes s') c = None"
proof (intro impI)
  assume a: "\<not> truthy (flakeIntervalId s) \<and> startSnowflakes cfg e d s = (Inr (), s')
   \<and> containerElement s' = Some c \<and> c \<noteq> document_body \<and> computedPosition e c = ''static''"
  then have o: "overridden c ''relative''
           (Some (if stylePosition s c = '''' then ''static'' else stylePosition s c)) s'"
    by (intro start_overrides) blast+
  from a have c: "containerElement s' = Some c" "c \<noteq> document_body" by blast+
  show "stylePosition s' c = ''relative''
       \<and> stylePosition (stopSnowflakes s') c
           = (if stylePosition s c = ''static'' then '''' else stylePosition s c)
       \<and> positionAttribute (stopSnowflakes s') c = None"
    using o stop_stylePosition[OF c] stop_positionAttribute[OF c]
    by (simp add: overridden_def)
qed

theorem position_restored_witness:
  "\<not> truthy (flakeIntervalId (initial page0))
   \<and> fst (startSnowflakes container_config env0 draws0 (initial page0)) = Inr ()
   \<and> containerElement (snd (startSnowflakes container_config env0 draws0 (initial page0)))
       = Some 2
   \<and> 2 \<noteq> document_body \<and> computedPosition env0 2 = ''static''
   \<and> stylePosition (snd (startSnowflakes container_config env0 draws0 (initial page0))) 2
       = ''relative''
   \<and> stylePosition
        (stopSnowflakes (snd (startSnowflakes container_config env0 draws0 (initial page0)))) 2
       = stylePosition (initial page0) 2"
proof -
  have "startSnowflakes container_config env0 draws0 (initial page0)
          = (Inr (), snd (startSnowflakes container_config env0 draws0 (initial page0)))"
    using container_start_eval(2) by (simp add: prod_eq_iff)
  then show ?thesis
    using position_restored_unless_inline_static[of "initial page0" container_config env0 draws0
        "snd (startSnowflakes container_config env0 draws0 (initial page0))" 2]
      container_start_eval
    by simp
qed

text \<open>
  Claim C5. The chaos multiplier is the chaos level clamped into \<open>[0, 100]\<close>, divided
  by 50. A flake that \<open>createSnowflake\<close> creates carries \<open>xDeviation\<close> and
  \<open>xDeviationEnd\<close> of its two drift draws. With chaos 0 both are 0 for every draw. With
  chaos 100 the largest magnitude over the draws in \<open>[0, 1)\<close> is 200 for the start
  phase and 100 for the end phase (both reached at the draw 0); with chaos 50 it is 100
  and 50.
\<close>

theorem chaos_scales_drift:
  "chaosMultiplier cfg = clamp (chaos cfg) 0 100 / 50
   \<and> (createSnowflake cfg e d s = (Inr (Some n), s') \<longrightarrow>
        (\<exists>fl. created s' n = Some (FlakeElement fl)
           \<and> snow_x fl = xDeviation cfg (uX d) \<and> snow_x_end fl = xDeviationEnd cfg (uXEnd d)))
   \<and> xDeviation (cfg\<lparr>chaos := 0\<rparr>) u = 0 \<and> xDeviationEnd (cfg\<lparr>chaos := 0\<rparr>) u = 0
   \<and> max_magnitude (xDeviation (cfg\<lparr>chaos := 100\<rparr>)) 200
   \<and> max_magnitude (xDeviationEnd (cfg\<lparr>chaos := 100\<rparr>)) 100
   \<and> max_magnitude (xDeviation (cfg\<lparr>chaos := 50\<rparr>)) 100
   \<and> max_magnitude (xDeviationEnd (cfg\<lparr>chaos := 50\<rparr>)) 50"
proof (intro conjI impI)
  show "chaosMultiplier cfg = clamp (chaos cfg) 0 100 / 50"
    by (simp add: chaosMultiplier_def clamp_def)
  show "\<exists>fl. created s' n = Some (FlakeElement fl)
           \<and> snow_x fl = xDeviation cfg (uX d) \<and> snow_x_end fl = xDeviationEnd cfg (uXEnd d)"
    if "createSnowflake cfg e d s = (Inr (Some n), s')"
  proof -
    from createSnowflake_created[OF that]
    have "created s' n = Some (FlakeElement (sampled cfg d))" by (rule conjunct1)
    then show ?thesis by (intro exI[of _ "sampled cfg d"]) (simp add: sampled_def)
  qed
  show "xDeviation (cfg\<lparr>chaos := 0\<rparr>) u = 0" "xDeviationEnd (cfg\<lparr>chaos := 0\<rparr>) u = 0"
    by (simp_all add: xDeviation_def xDeviationEnd_def maxDeviation_def chaosMultiplier_def
        random_def)
  have a: "xDeviation (cfg\<lparr>chaos := 100\<rparr>) = (\<lambda>u. random u (- 200) 200)"
    and b: "xDeviationEnd (cfg\<lparr>chaos := 100\<rparr>) = (\<lambda>u. random u (- 100) 100)"
    and c: "xDeviation (cfg\<lparr>chaos := 50\<rparr>) = (\<lambda>u. random u (- 100) 100)"
    and d: "xDeviationEnd (cfg\<lparr>chaos := 50\<rparr>) = (\<lambda>u. random u (- 50) 50)"
    by (simp_all add: fun_eq_iff xDeviation_def xDeviationEnd_def maxDeviation_def
        chaosMultiplier_def)
  show "max_magnitude (xDeviation (cfg\<lparr>chaos := 100\<rparr>)) 200"
    unfolding a using max_magnitude_random[of 200] by simp
  show "max_magnitude (xDeviationEnd (cfg\<lparr>chaos := 100\<rparr>)) 100"
    unfolding b using max_magnitude_random[of 100] by simp
  show "max_magnitude (xDeviation (cfg\<lparr>chaos := 50\<rparr>)) 100"
    unfolding c using max_magnitude_random[of 100] by simp
  show "max_magnitude (xDeviationEnd (cfg\<lparr>chaos := 50\<rparr>)) 50"
    unfolding d using max_magnitude_random[of 50] by simp
qed

theorem chaos_scales_drift_witness:
  "createSnowflake default_config env0 draws0 (initial page0)
     = (Inr (Some 3), snd (createSnowflake default_config env0 draws0 (initial page0)))
   \<and> (\<exists>fl. created (snd (createSnowflake default_config env0 draws0 (initial page0))) 3
              = Some (FlakeElement fl)
         \<and> snow_x fl = xDeviation default_config (uX draws0))
   \<and> unit_draw (1 / 2)
   \<and> \<bar>xDeviation (default_config\<lparr>chaos := 100\<rparr>) (1 / 2)\<bar> \<le> 200
   \<and> \<bar>xDeviationEnd (default_config\<lparr>chaos := 50\<rparr>) (1 / 2)\<bar> \<le> 50"
  using chaos_scales_drift[of default_config env0 draws0 "initial page0" 3
      "snd (createSnowflake default_config env0 draws0 (initial page0))" 0]
    default_spawn_eval(1,2)
  unfolding max_magnitude_def by blast

text \<open>
  Claim C7. With the container resolved, \<open>getContainer\<close> returns it and changes nothing:
  no query, no warning. With it unresolved, a selector string makes exactly one
  \<open>document.querySelector\<close> call: a match is the container, a miss gives
  \<open>document.body\<close> with exactly one warning, and an invalid selector makes the query
  throw; an element is used as it is and anything else gives \<open>document.body\<close>, both
  without a query. A container that is returned is cached. \<open>stopSnowflakes\<close> leaves
  the cache alone, and once the container is resolved no sequence of events changes it,
  queries again or warns again.
\<close>

theorem container_memoized:
  "(containerElement s = Some c \<longrightarrow> getContainer cfg e s = (Inr c, s))
   \<and> (containerElement s = None \<longrightarrow>
        (case container cfg of
           Selector sel \<Rightarrow>
             queried (snd (getContainer cfg e s)) = queried s @ [sel]
             \<and> (case querySelector e sel of
                  Matched m \<Rightarrow>
                    fst (getContainer cfg e s) = Inr m
                    \<and> warned (snd (getContainer cfg e s)) = warned s
                | NoMatch \<Rightarrow>
                    fst (getContainer cfg e s) = Inr document_body
                    \<and> warned (snd (getContainer cfg e s)) = warned s @ [not_found_warning sel]
                | InvalidSelector \<Rightarrow>
                    fst (getContainer cfg e s) = Inl (SyntaxError sel)
                    \<and> warned (snd (getContainer cfg e s)) = warned s)
         | ElementRef m \<Rightarrow>
             fst (getContainer cfg e s) = Inr m
             \<and> queried (snd (getContainer cfg e s)) = queried s
             \<and> warned (snd (getContainer cfg e s)) = warned s
         | OtherValue \<Rightarrow>
             fst (getContainer cfg e s) = Inr document_body
             \<and> queried (snd (getContainer cfg e s)) = queried s
             \<and> warned (snd (getContainer cfg e s)) = warned s))
   \<and> (fst (getContainer cfg e s) = Inr c \<longrightarrow>
        containerElement (snd (getContainer cfg e s)) = Some c)
   \<and> containerElement (stopSnowflakes s) = containerElement s
   \<and> (containerElement s = Some c \<longrightarrow>
        containerElement (run cfg evs s) = Some c
        \<and> queried (run cfg evs s) = queried s \<and> warned (run cfg evs s) = warned s)"
proof (intro conjI impI)
  show "getContainer cfg e s = (Inr c, s)" if "containerElement s = Some c"
    using that by (rule getContainer_cached)
  show "case container cfg of
           Selector sel \<Rightarrow>
             queried (snd (getContainer cfg e s)) = queried s @ [sel]
             \<and> (case querySelector e sel of
                  Matched m \<Rightarrow>
                    fst (getContainer cfg e s) = Inr m
                    \<and> warned (snd (getContainer cfg e s)) = warned s
                | NoMatch \<Rightarrow>
                    fst (getContainer cfg e s) = Inr document_body
                    \<and> warned (snd (getContainer cfg e s)) = warned s @ [not_found_warning sel]
                | InvalidSelector \<Rightarrow>
                    fst (getContainer cfg e s) = Inl (SyntaxError sel)
                    \<and> warned (snd (getContainer cfg e s)) = warned s)
         | ElementRef m \<Rightarrow>
             fst (getContainer cfg e s) = Inr m
             \<and> queried (snd (getContainer cfg e s)) = queried s
             \<and> warned (snd (getContainer cfg e s)) = warned s
         | OtherValue \<Rightarrow>
             fst (getContainer cfg e s) = Inr document_body
             \<and> queried (snd (getContainer cfg e s)) = queried s
             \<and> warned (snd (getContainer cfg e s)) = warned s"
    if "containerElement s = None"
    using that
    by (simp add: getContainer_def Let_def split: container_option.split query_result.split)
  show "containerElement (snd (getContainer cfg e s)) = Some c"
    if "fst (getContainer cfg e s) = Inr c"
    using that by (rule getContainer_resolved)
  show "containerElement (stopSnowflakes s) = containerElement s"
    by (rule stop_containerElement)
  show "containerElement (run cfg evs s) = Some c" "queried (run cfg evs s) = queried s"
    "warned (run cfg evs s) = warned s"
    if "containerElement s = Some c"
    using resolved_as_run[of c "queried s" "warned s" s cfg evs] that
    by (simp_all add: resolved_as_def)
qed

theorem container_memoized_witness:
  "containerElement (initial page0) = None
   \<and> fst (getContainer selector_config env0 (initial page0)) = Inr document_body
   \<and> queried (snd (getContainer selector_config env0 (initial page0))) = [''#snow'']
   \<and> warned (snd (getContainer selector_config env0 (initial page0)))
       = [not_found_warning ''#snow'']
   \<and> containerElement (snd (getContainer selector_config env0 (initial page0)))
       = Some document_body
   \<and> containerElement (run selector_config [Start env0 draws0] (initial page0))
       = Some document_body
   \<and> getContainer selector_config env0
        (run selector_config [Start env0 draws0] (initial page0))
       = (Inr document_body, run selector_config [Start env0 draws0] (initial page0))
   \<and> queried (run selector_config [Stop, Start env0 draws0, SpawnTick env0 draws0, SweepTick env0]
                (run selector_config [Start env0 draws0] (initial page0))) = [''#snow'']
   \<and> warned (run selector_config [Stop, Start env0 draws0, SpawnTick env0 draws0, SweepTick env0]
                (run selector_config [Start env0 draws0] (initial page0)))
       = [not_found_warning ''#snow'']"
proof -
  have a: "fst (getContainer selector_config env0 (initial page0)) = Inr document_body
     \<and> queried (snd (getContainer selector_config env0 (initial page0))) = [''#snow'']
     \<and> warned (snd (getContainer selector_config env0 (initial page0)))
         = [not_found_warning ''#snow'']"
    using container_memoized[of "initial page0" document_body selector_config env0 "[]"]
      selector_eval(1-5)
    by simp
  then have b: "containerElement (snd (getContainer selector_config env0 (initial page0)))
       = Some document_body"
    using container_memoized[of "initial page0" document_body selector_config env0 "[]"]
    by blast
  have c: "getContainer selector_config env0
        (run selector_config [Start env0 draws0] (initial page0))
       = (Inr document_body, run selector_config [Start env0 draws0] (initial page0))
   \<and> queried (run selector_config [Stop, Start env0 draws0, SpawnTick env0 draws0, SweepTick env0]
                (run selector_config [Start env0 draws0] (initial page0))) = [''#snow'']
   \<and> warned (run selector_config [Stop, Start env0 draws0, SpawnTick env0 draws0, SweepTick env0]
                (run selector_config [Start env0 draws0] (initial page0)))
       = [not_found_warning ''#snow'']"
    using container_memoized[of "run selector_config [Start env0 draws0] (initial page0)"
        document_body selector_config env0
        "[Stop, Start env0 draws0, SpawnTick env0 draws0, SweepTick env0]"]
      selector_eval(6-8)
    by simp
  show ?thesis using a b c selector_eval(1,6) by blast
qed

text \<open>
  Claim C8. When the tracked set has reached the maximum, or when the rounded size is
  \<open>\<le> 0\<close> and the container is resolved, \<open>createSnowflake\<close> returns \<open>null\<close> and the
  state is the one before the call: nothing created, attached or tracked, no exception.
  The container is resolved at both calls of the program: in every reachable state in which
  the spawn interval is registered, a tick whose guard triggers leaves the state unchanged
  and the interval registered; and a start whose first spawn has a rounded size
  \<open>\<le> 0\<close> ends with an empty tracked set and the spawn interval registered.
\<close>

theorem spawn_guards_skip_the_tick:
  "((max_reached cfg s
      \<or> (containerElement s \<noteq> None
           \<and> round (random (uSize d) (minSize cfg) (maxSize cfg)) \<le> 0))
     \<longrightarrow> createSnowflake cfg e d s = (Inr None, s))
   \<and> (s = run cfg evs (initial pg) \<and> registered SpawnCallback s
        \<and> (max_reached cfg s \<or> round (random (uSize d) (minSize cfg) (maxSize cfg)) \<le> 0)
      \<longrightarrow> createSnowflake cfg e d s = (Inr None, s)
          \<and> step cfg (SpawnTick e d) s = s
          \<and> registered SpawnCallback (step cfg (SpawnTick e d) s))
   \<and> (round (random (uSize d) (minSize cfg) (maxSize cfg)) \<le> 0
        \<and> startSnowflakes cfg e d s = (Inr (), s')
      \<longrightarrow> activeFlakes s' = [] \<and> registered SpawnCallback s')"
proof (intro conjI impI)
  show "createSnowflake cfg e d s = (Inr None, s)"
    if "max_reached cfg s
      \<or> (containerElement s \<noteq> None
           \<and> round (random (uSize d) (minSize cfg) (maxSize cfg)) \<le> 0)"
    using that by (rule guards_skip)
next
  assume a: "s = run cfg evs (initial pg) \<and> registered SpawnCallback s
        \<and> (max_reached cfg s \<or> round (random (uSize d) (minSize cfg) (maxSize cfg)) \<le> 0)"
  then have r: "s = run cfg evs (initial pg)" and reg: "registered SpawnCallback s"
    and g: "max_reached cfg s \<or> round (random (uSize d) (minSize cfg) (maxSize cfg)) \<le> 0"
    by blast+
  have "consistent cfg s" unfolding r by (rule consistent_run)
  then have "timers_ok cfg s" by (simp add: consistent_def)
  then have "containerElement s \<noteq> None" using reg by (rule registered_resolved)
  with g show c: "createSnowflake cfg e d s = (Inr None, s)"
    by (intro guards_skip) blast
  with reg show st: "step cfg (SpawnTick e d) s = s" by simp
  show "registered SpawnCallback (step cfg (SpawnTick e d) s)"
    unfolding st by (rule reg)
next
  assume a: "round (random (uSize d) (minSize cfg) (maxSize cfg)) \<le> 0
        \<and> startSnowflakes cfg e d s = (Inr (), s')"
  have "activeFlakes s' = [] \<and> registered SpawnCallback s'"
  proof (cases rule: startSnowflakes_outcomes[of cfg e s d])
    case (unresolved err)
    then show ?thesis using a by simp
  next
    case (spawn_throws c err)
    then show ?thesis using a by simp
  next
    case (started c r)
    let ?t = "positioned e c (snd (getContainer cfg e (prepared cfg s)))"
    have "containerElement ?t \<noteq> None"
      using getContainer_resolved[OF started(1)] by (simp add: positioned_def)
    then have "createSnowflake cfg e d ?t = (Inr None, ?t)"
      using a by (intro guards_skip) simp
    moreover have "activeFlakes ?t = []"
      by (simp add: positioned_def getContainer_fields prepared_activeFlakes)
    ultimately show ?thesis
      using started(3) a by (auto simp: registered_scheduled) (simp add: scheduled_def)
  qed
  then show "activeFlakes s' = []" "registered SpawnCallback s'" by simp_all
qed

theorem spawn_guards_skip_the_tick_witness:
  "max_reached capped_config (run capped_config [Start env0 draws0] (initial page0))
   \<and> registered SpawnCallback (run capped_config [Start env0 draws0] (initial page0))
   \<and> step capped_config (SpawnTick env0 draws0)
        (run capped_config [Start env0 draws0] (initial page0))
       = run capped_config [Start env0 draws0] (initial page0)
   \<and> round (random (uSize draws0) (minSize tiny_config) (maxSize tiny_config)) \<le> 0
   \<and> fst (startSnowflakes tiny_config env0 draws0 (initial page0)) = Inr ()
   \<and> activeFlakes (snd (startSnowflakes tiny_config env0 draws0 (initial page0))) = []
   \<and> registered SpawnCallback (snd (startSnowflakes tiny_config env0 draws0 (initial page0)))"
proof -
  have a: "step capped_config (SpawnTick env0 draws0)
        (run capped_config [Start env0 draws0] (initial page0))
       = run capped_config [Start env0 draws0] (initial page0)"
    using spawn_guards_skip_the_tick[of capped_config
        "run capped_config [Start env0 draws0] (initial page0)" draws0 env0
        "[Start env0 draws0]" page0]
      capped_started(2,3)
    by blast
  have "startSnowflakes tiny_config env0 draws0 (initial page0)
          = (Inr (), snd (startSnowflakes tiny_config env0 draws0 (initial page0)))"
    using tiny_eval(5) by (simp add: prod_eq_iff)
  then have b: "activeFlakes (snd (startSnowflakes tiny_config env0 draws0 (initial page0))) = []
   \<and> registered SpawnCallback (snd (startSnowflakes tiny_config env0 draws0 (initial page0)))"
    using spawn_guards_skip_the_tick[of tiny_config "initial page0" draws0 env0 "[]" page0
        "snd (startSnowflakes tiny_config env0 draws0 (initial page0))"]
      tiny_eval(1)
    by blast
  show ?thesis using a b capped_started(2,3) tiny_eval(1,5) by blast
qed

text \<open>
  Claim C9. With \<open>maxFlakes = m\<close> and \<open>m \<le> 0\<close>, every \<open>createSnowflake\<close> returns
  \<open>null\<close> and leaves the state as it is; the tracked set is empty right after
  \<open>startSnowflakes\<close>, and it is empty after every sequence of events.
\<close>

theorem nonpositive_maxFlakes_never_spawns:
  "maxFlakes cfg = Some m \<and> m \<le> 0 \<longrightarrow>
     createSnowflake cfg e d s = (Inr None, s)
     \<and> activeFlakes (snd (startSnowflakes cfg e d s)) = []
     \<and> activeFlakes (run cfg evs (initial pg)) = []"
proof (intro impI conjI)
  assume a: "maxFlakes cfg = Some m \<and> m \<le> 0"
  then have m: "maxFlakes cfg = Some m" and le: "m \<le> real_of_int 0" by simp_all
  show "createSnowflake cfg e d s = (Inr None, s)"
    using m le by (simp add: createSnowflake_def)
  have "bounded_by 0 (prepared cfg s)"
    by (simp add: bounded_by_def prepared_activeFlakes)
  have b: "bounded_by 0 (run cfg evs (initial pg))"
    by (rule bounded_by_run[OF m le]) (simp add: bounded_by_def initial_def)
  then show "activeFlakes (run cfg evs (initial pg)) = []"
    by (simp add: bounded_by_def)
  have q: "bounded_by 0 (positioned e' c t)" if "bounded_by 0 t" for e' c t
    using that by (simp add: bounded_by_def positioned_def)
  have r: "bounded_by 0 (scheduled cfg t)" if "bounded_by 0 t" for t
    using that by (simp add: bounded_by_def scheduled_def)
  have "bounded_by 0 (snd (startSnowflakes cfg e d s))"
    using \<open>bounded_by 0 (prepared cfg s)\<close>
    by (cases rule: startSnowflakes_outcomes[of cfg e s d])
      (simp_all add: q r bounded_by_getContainer bounded_by_createSnowflake[OF m le])
  then show "activeFlakes (snd (startSnowflakes cfg e d s)) = []"
    by (simp add: bounded_by_def)
qed

theorem nonpositive_maxFlakes_never_spawns_witness:
  "maxFlakes zero_config = Some 0 \<and> (0::real) \<le> 0
   \<and> createSnowflake zero_config env0 draws0 (initial page0) = (Inr None, initial page0)
   \<and> activeFlakes (snd (startSnowflakes zero_config env0 draws0 (initial page0))) = []
   \<and> activeFlakes
        (run zero_config [Start env0 draws0, SpawnTick env0 draws0, SpawnTick env0 draws0]
          (initial page0)) = []"
proof -
  have "maxFlakes zero_config = Some 0 \<and> (0::real) \<le> 0"
    by (simp add: zero_config_def)
  then show ?thesis
    using nonpositive_maxFlakes_never_spawns[of zero_config 0 env0 draws0 "initial page0"
        "[Start env0 draws0, SpawnTick env0 draws0, SpawnTick env0 draws0]" page0]
    by blast
qed

text \<open>
  Claim C10. \<open>removeSnowflake\<close> leaves the state as it is for a flake without a parent
  node, and a flake leaves the tracked set through it only if it is the flake passed and
  has a parent node. So a tracked flake that is out of the document stays tracked, and out
  of the document, through every sequence of spawn ticks, sweep ticks, animation ends and
  outside removals; \<open>removeAllSnowflakes\<close> and \<open>stopSnowflakes\<close> empty the tracked
  set, and after \<open>startSnowflakes\<close> the flake is not tracked.
\<close>

theorem detached_flake_stays_tracked:
  "(parentNode s f = None \<longrightarrow> removeSnowflake f s = s)
   \<and> (g \<in> set (activeFlakes s) \<and> g \<notin> set (activeFlakes (removeSnowflake f s))
        \<longrightarrow> g = f \<and> parentNode s f \<noteq> None)
   \<and> (f \<in> set (activeFlakes s) \<and> parentNode s f = None \<and> f < nextNode s
        \<and> (\<forall>ev \<in> set evs. \<not> restarts ev)
        \<longrightarrow> f \<in> set (activeFlakes (run cfg evs s)) \<and> parentNode (run cfg evs s) f = None)
   \<and> activeFlakes (removeAllSnowflakes s) = []
   \<and> activeFlakes (stopSnowflakes s) = []
   \<and> (f < nextNode s \<longrightarrow> f \<notin> set (activeFlakes (snd (startSnowflakes cfg e d s))))"
proof (intro conjI impI)
  show "removeSnowflake f s = s" if "parentNode s f = None"
    using that by (simp add: removeSnowflake_def)
  show "g = f" "parentNode s f \<noteq> None"
    if "g \<in> set (activeFlakes s) \<and> g \<notin> set (activeFlakes (removeSnowflake f s))"
    using that by (auto simp: removeSnowflake_eq)
  show "f \<in> set (activeFlakes (run cfg evs s))" "parentNode (run cfg evs s) f = None"
    if "f \<in> set (activeFlakes s) \<and> parentNode s f = None \<and> f < nextNode s
        \<and> (\<forall>ev \<in> set evs. \<not> restarts ev)"
    using stranded_run[of f s evs cfg] that by (simp_all add: stranded_def)
  show "activeFlakes (removeAllSnowflakes s) = []"
    by (simp add: removeAllSnowflakes_eq)
  show "activeFlakes (stopSnowflakes s) = []"
    by (rule stop_activeFlakes)
  show "f \<notin> set (activeFlakes (snd (startSnowflakes cfg e d s)))" if "f < nextNode s"
    using that start_activeFlakes[of cfg e d s] by auto
qed

theorem detached_flake_stays_tracked_witness:
  "parentNode (step default_config (Detached 4)
        (run default_config [Start env0 draws0] (initial page0))) 4 = None
   \<and> removeSnowflake 4 (step default_config (Detached 4)
        (run default_config [Start env0 draws0] (initial page0)))
       = step default_config (Detached 4)
           (run default_config [Start env0 draws0] (initial page0))
   \<and> 4 \<in> set (activeFlakes
        (run default_config [SpawnTick env0 draws0, SweepTick env0, AnimationEnd 4]
          (step default_config (Detached 4)
            (run default_config [Start env0 draws0] (initial page0)))))
   \<and> 4 \<in> set (activeFlakes (run default_config [Start env0 draws0] (initial page0)))
   \<and> 4 \<notin> set (activeFlakes (removeSnowflake 4
        (run default_config [Start env0 draws0] (initial page0))))
   \<and> parentNode (run default_config [Start env0 draws0] (initial page0)) 4 \<noteq> None
   \<and> 4 \<notin> set (activeFlakes (snd (startSnowflakes default_config env0 draws0
        (step default_config (Detached 4)
          (run default_config [Start env0 draws0] (initial page0))))))"
proof -
  have a: "removeSnowflake 4 (step default_config (Detached 4)
        (run default_config [Start env0 draws0] (initial page0)))
       = step default_config (Detached 4)
           (run default_config [Start env0 draws0] (initial page0))
   \<and> 4 \<in> set (activeFlakes
        (run default_config [SpawnTick env0 draws0, SweepTick env0, AnimationEnd 4]
          (step default_config (Detached 4)
            (run default_config [Start env0 draws0] (initial page0)))))
   \<and> 4 \<notin> set (activeFlakes (snd (startSnowflakes default_config env0 draws0
        (step default_config (Detached 4)
          (run default_config [Start env0 draws0] (initial page0))))))"
    using detached_flake_stays_tracked[of
        "step default_config (Detached 4) (run default_config [Start env0 draws0] (initial page0))"
        4 4 "[SpawnTick env0 draws0, SweepTick env0, AnimationEnd 4]" default_config
        env0 draws0]
      detached_eval(1-4)
    by blast
  have b: "parentNode (run default_config [Start env0 draws0] (initial page0)) 4 \<noteq> None"
    using detached_flake_stays_tracked[of
        "run default_config [Start env0 draws0] (initial page0)" 4 4 "[]" default_config
        env0 draws0]
      detached_eval(5) default_started(2)
    by simp
  show ?thesis using a b detached_eval(2,5) default_started(2) by simp
qed

end
